theory Spec2Isabelle
  imports Main
begin

section \<open>Rows of the relational store\<close>

text \<open>
  The backend keeps its state in relational tables that are read and written through
  Sequelize models. A table is a list of rows; a row is a record with the attributes the
  model declares. Attribute values that are JavaScript strings are \<open>string\<close>s, a
  nullable attribute is an \<open>option\<close>, and a timestamp is the number of milliseconds of
  a \<open>Date\<close>. A client's \<open>user_id\<close> is nullable as in \<open>schema.sql\<close>: both handlers
  test whether the client has a user.

  The handlers are modelled as they are written: a write stores the attributes the
  handler passes. What the persistence layer does on its own on every write (the
  generated primary keys, the \<open>updated_at\<close> bookkeeping, the \<open>beforeValidate\<close>
  hooks of the models that trim free text) is behind that boundary. The creation of an
  order is modelled with the validation that precedes its \<open>beforeCreate\<close> hook.
\<close>

type_synonym uuid = string
type_synonym timestamp = int

record user =
  user_id :: uuid
  user_role :: string

record client =
  client_id :: uuid
  client_user_id :: "uuid option"

record order =
  order_id :: uuid
  order_number :: string
  order_client_id :: uuid
  order_assigned_manager_id :: "uuid option"
  order_status :: string
  order_total_amount :: "int option"
  order_currency :: string
  order_date :: timestamp
  order_estimated_completion_date :: "timestamp option"
  order_actual_completion_date :: "timestamp option"
  order_notes :: "string option"
  order_crm_order_id :: "string option"
  order_created_at :: timestamp

record job =
  job_id :: uuid
  job_order_id :: uuid
  job_assigned_worker_id :: "uuid option"
  job_type :: string
  job_status :: string
  job_scheduled_date :: "string option"
  job_scheduled_time :: "string option"
  job_location_address :: string
  job_estimated_duration :: "int option"
  job_actual_start_time :: "timestamp option"
  job_actual_end_time :: "timestamp option"
  job_notes :: "string option"

datatype json =
    JNull
  | JBool bool
  | JNum int
  | JStr string
  | JArr "json list"
  | JObj "(string \<times> json) list"

record job_status_update =
  jsu_job_id :: uuid
  jsu_previous_status :: "string option"
  jsu_new_status :: string
  jsu_updated_by :: "uuid option"
  jsu_notes :: "string option"
  jsu_location_coordinates :: "json option"

record notification =
  ntf_user_id :: uuid
  ntf_title :: string
  ntf_message :: string
  ntf_type :: string
  ntf_related_job_id :: "uuid option"
  ntf_related_order_id :: "uuid option"

record db =
  users :: "user list"
  clients :: "client list"
  orders :: "order list"
  jobs :: "job list"
  job_status_updates :: "job_status_update list"
  notifications :: "notification list"

text \<open>
  \<open>Model.findByPk\<close> returns the row with the given primary key, or null. An instance's
  \<open>update\<close> writes the changed instance over the row with its primary key.
\<close>

definition findByPk :: "('r \<Rightarrow> uuid) \<Rightarrow> 'r list \<Rightarrow> uuid \<Rightarrow> 'r option" where
  "findByPk pk rows k = find (\<lambda>r. pk r = k) rows"

definition update_row :: "('r \<Rightarrow> uuid) \<Rightarrow> 'r \<Rightarrow> 'r list \<Rightarrow> 'r list" where
  "update_row pk r rows = map (\<lambda>x. if pk x = pk r then r else x) rows"

text \<open>
  A lookup in an object literal followed by \<open>|| fallback\<close>: the fallback is taken when the
  key is missing and also when the stored value is falsy (the empty string, the number 0).
\<close>

definition lookup_or_str :: "(string \<times> string) list \<Rightarrow> string \<Rightarrow> string \<Rightarrow> string" where
  "lookup_or_str table k fallback =
     (case map_of table k of
        None \<Rightarrow> fallback
      | Some v \<Rightarrow> if v = [] then fallback else v)"

definition lookup_or_int :: "(string \<times> int) list \<Rightarrow> string \<Rightarrow> int \<Rightarrow> int" where
  "lookup_or_int table k fallback =
     (case map_of table k of
        None \<Rightarrow> fallback
      | Some v \<Rightarrow> if v = 0 then fallback else v)"

section \<open>The Job model\<close>

definition Job_status_ENUM :: "string list" where
  "Job_status_ENUM =
     [''assigned'', ''en_route'', ''arrived'', ''in_progress'', ''completed'', ''cancelled'']"

definition Job_typeMap :: "(string \<times> string) list" where
  "Job_typeMap =
     [(''measuring'', ''Measuring''),
      (''delivery'', ''Delivery''),
      (''installation'', ''Installation'')]"

definition getJobTypeDisplay :: "job \<Rightarrow> string" where
  "getJobTypeDisplay j = lookup_or_str Job_typeMap (job_type j) (job_type j)"

definition Job_statusMap :: "(string \<times> string) list" where
  "Job_statusMap =
     [(''assigned'', ''Assigned''),
      (''en_route'', ''En Route''),
      (''arrived'', ''Arrived''),
      (''in_progress'', ''In Progress''),
      (''completed'', ''Completed''),
      (''cancelled'', ''Cancelled'')]"

definition Job_getStatusDisplay :: "job \<Rightarrow> string" where
  "Job_getStatusDisplay j = lookup_or_str Job_statusMap (job_status j) (job_status j)"

definition statusFlow :: "(string \<times> string list) list" where
  "statusFlow =
     [(''assigned'', [''en_route'', ''cancelled'']),
      (''en_route'', [''arrived'', ''cancelled'']),
      (''arrived'', [''in_progress'', ''cancelled'']),
      (''in_progress'', [''completed'', ''cancelled'']),
      (''completed'', []),
      (''cancelled'', [])]"

text \<open>\<open>statusFlow[this.status] || []\<close>: an array, also the empty one, is truthy.\<close>

definition getNextValidStatuses :: "job \<Rightarrow> string list" where
  "getNextValidStatuses j =
     (case map_of statusFlow (job_status j) of
        None \<Rightarrow> []
      | Some nexts \<Rightarrow> nexts)"

definition canUpdateStatus :: "job \<Rightarrow> string \<Rightarrow> bool" where
  "canUpdateStatus j newStatus = (newStatus \<in> set (getNextValidStatuses j))"

text \<open>
  The transition table as the specification words it (section 4.1), kept apart from
  \<open>statusFlow\<close> so that the two can be compared.
\<close>

definition spec_allowed_next :: "string \<Rightarrow> string set" where
  "spec_allowed_next current =
     (if current = ''assigned'' then {''en_route'', ''cancelled''}
      else if current = ''en_route'' then {''arrived'', ''cancelled''}
      else if current = ''arrived'' then {''in_progress'', ''cancelled''}
      else if current = ''in_progress'' then {''completed'', ''cancelled''}
      else {})"

section \<open>The User model\<close>

definition canViewAllProjects :: "user \<Rightarrow> bool" where
  "canViewAllProjects u = (user_role u \<in> set [''director'', ''manager'', ''supervisor''])"

section \<open>The Order model\<close>

definition Order_status_ENUM :: "string list" where
  "Order_status_ENUM =
     [''pending'',
      ''measuring_scheduled'',
      ''measuring_in_progress'',
      ''measuring_completed'',
      ''production_scheduled'',
      ''in_production'',
      ''production_completed'',
      ''delivery_scheduled'',
      ''in_delivery'',
      ''delivered'',
      ''installation_scheduled'',
      ''installation_in_progress'',
      ''installation_completed'',
      ''completed'',
      ''cancelled'']"

definition Order_statusMap :: "(string \<times> string) list" where
  "Order_statusMap =
     [(''pending'', ''Pending''),
      (''measuring_scheduled'', ''Measuring Scheduled''),
      (''measuring_in_progress'', ''Measuring in Progress''),
      (''measuring_completed'', ''Measuring Completed''),
      (''production_scheduled'', ''Production Scheduled''),
      (''in_production'', ''In Production''),
      (''production_completed'', ''Production Completed''),
      (''delivery_scheduled'', ''Delivery Scheduled''),
      (''in_delivery'', ''In Delivery''),
      (''delivered'', ''Delivered''),
      (''installation_scheduled'', ''Installation Scheduled''),
      (''installation_in_progress'', ''Installation in Progress''),
      (''installation_completed'', ''Installation Completed''),
      (''completed'', ''Completed''),
      (''cancelled'', ''Cancelled'')]"

definition Order_getStatusDisplay :: "order \<Rightarrow> string" where
  "Order_getStatusDisplay ord = lookup_or_str Order_statusMap (order_status ord) (order_status ord)"

definition statusProgress :: "(string \<times> int) list" where
  "statusProgress =
     [(''pending'', 5),
      (''measuring_scheduled'', 10),
      (''measuring_in_progress'', 15),
      (''measuring_completed'', 25),
      (''production_scheduled'', 30),
      (''in_production'', 50),
      (''production_completed'', 70),
      (''delivery_scheduled'', 75),
      (''in_delivery'', 80),
      (''delivered'', 85),
      (''installation_scheduled'', 90),
      (''installation_in_progress'', 95),
      (''installation_completed'', 98),
      (''completed'', 100),
      (''cancelled'', 0)]"

definition getProgressPercentage :: "order \<Rightarrow> int" where
  "getProgressPercentage ord = lookup_or_int statusProgress (order_status ord) 0"

text \<open>The canonical happy path of an order, as the specification lists it (section 8).\<close>

definition happy_path :: "string list" where
  "happy_path =
     [''pending'',
      ''measuring_scheduled'',
      ''measuring_in_progress'',
      ''measuring_completed'',
      ''production_scheduled'',
      ''in_production'',
      ''production_completed'',
      ''delivery_scheduled'',
      ''in_delivery'',
      ''delivered'',
      ''installation_scheduled'',
      ''installation_in_progress'',
      ''installation_completed'',
      ''completed'']"

section \<open>Requests, responses and failures\<close>

text \<open>
  The handlers run behind \<open>authenticateToken\<close>, which supplies the requesting user.
  A route handler answers with a JSON body or with an error status. Every \<open>await\<close> on
  the store sits in the handler's \<open>try\<close> block: when the call rejects, the handler
  stops there and answers 500, and the writes made before stay. Which calls reject is
  the environment's choice, given to the handler as \<open>fails\<close>.
\<close>

datatype db_call =
    Job_findByPk
  | Job_update
  | JobStatusUpdate_create
  | Notification_create
  | Order_findByPk
  | Order_update

datatype http_error =
    ValidationErrors "string list"
  | AccessDenied
  | InsufficientPermissions
  | NotFound
  | InvalidTransition string "string list"
  | ServerError

definition no_failure :: "db_call \<Rightarrow> bool" where
  "no_failure c = False"

record job_status_body =
  sb_status :: string
  sb_notes :: "string option"
  sb_location_coordinates :: "json option"

record job_status_response =
  resp_job :: job
  resp_old_status :: string
  resp_new_status :: string

record order_status_body =
  ob_status :: string
  ob_notes :: "string option"

record order_status_response =
  oresp_order :: order
  oresp_old_status :: string
  oresp_new_status :: string

text \<open>The \<open>isObject\<close> validator: an object that is neither an array nor null.\<close>

fun isObject :: "json \<Rightarrow> bool" where
  "isObject (JObj members) = True"
| "isObject other = False"

text \<open>
  The eager loading of the two handlers: \<open>order.client\<close> is the client row of the order
  or null, and \<open>client.user\<close> is the user row of the client or null.
\<close>

definition include_client :: "db \<Rightarrow> order \<Rightarrow> (client \<times> user option) option" where
  "include_client d ord =
     (case findByPk client_id (clients d) (order_client_id ord) of
        None \<Rightarrow> None
      | Some c \<Rightarrow>
          Some (c, case client_user_id c of
                     None \<Rightarrow> None
                   | Some uid \<Rightarrow> findByPk user_id (users d) uid))"

definition include_order :: "db \<Rightarrow> job \<Rightarrow> (order \<times> (client \<times> user option) option) option" where
  "include_order d j =
     (case findByPk order_id (orders d) (job_order_id j) of
        None \<Rightarrow> None
      | Some ord \<Rightarrow> Some (ord, include_client d ord))"

section \<open>PUT /:jobId/status\<close>

definition job_status_validation :: "job_status_body \<Rightarrow> string list" where
  "job_status_validation body =
     (if sb_status body \<in> set [''assigned'', ''en_route'', ''arrived'', ''in_progress'',
                                 ''completed'', ''cancelled'']
      then [] else [''status''])
     @ (case sb_notes body of
          None \<Rightarrow> []
        | Some n \<Rightarrow> if length n \<le> 500 then [] else [''notes''])
     @ (case sb_location_coordinates body of
          None \<Rightarrow> []
        | Some loc \<Rightarrow> if isObject loc then [] else [''location_coordinates''])"

text \<open>
  "Send notification to client and manager": \<open>job.order.client.user\<close> throws a TypeError
  when the order or its client was not loaded; a client without a user gets nothing.
\<close>

definition notify_job_client ::
  "(db_call \<Rightarrow> bool) \<Rightarrow> job \<Rightarrow> (order \<times> (client \<times> user option) option) option \<Rightarrow> db
     \<Rightarrow> db \<times> http_error option" where
  "notify_job_client fails j loaded d =
     (case loaded of
        None \<Rightarrow> (d, Some ServerError)
      | Some (ord, None) \<Rightarrow> (d, Some ServerError)
      | Some (ord, Some (c, None)) \<Rightarrow> (d, None)
      | Some (ord, Some (c, Some clientUser)) \<Rightarrow>
          if fails Notification_create then (d, Some ServerError)
          else (d\<lparr>notifications := notifications d @
                  [\<lparr>ntf_user_id = user_id clientUser,
                    ntf_title = ''Job Status Update'',
                    ntf_message = ''Your '' @ getJobTypeDisplay j
                       @ '' job status has been updated to '' @ Job_getStatusDisplay j,
                    ntf_type = ''status_update'',
                    ntf_related_job_id = Some (job_id j),
                    ntf_related_order_id = Some (job_order_id j)\<rparr>]\<rparr>, None))"

definition orderStatusMap :: "(string \<times> string) list" where
  "orderStatusMap =
     [(''measuring'', ''measuring_completed''),
      (''delivery'', ''delivered''),
      (''installation'', ''installation_completed'')]"

text \<open>"Update order status based on job completion".\<close>

definition update_order_on_completion ::
  "(db_call \<Rightarrow> bool) \<Rightarrow> string \<Rightarrow> job \<Rightarrow> (order \<times> (client \<times> user option) option) option \<Rightarrow> db
     \<Rightarrow> db \<times> http_error option" where
  "update_order_on_completion fails status j loaded d =
     (if status = ''completed'' then
        (case map_of orderStatusMap (job_type j) of
           None \<Rightarrow> (d, None)
         | Some newOrderStatus \<Rightarrow>
             if newOrderStatus = [] then (d, None)
             else (case loaded of
                     None \<Rightarrow> (d, Some ServerError)
                   | Some (ord, c) \<Rightarrow>
                       if fails Order_update then (d, Some ServerError)
                       else (d\<lparr>orders :=
                                 update_row order_id (ord\<lparr>order_status := newOrderStatus\<rparr>) (orders d)\<rparr>,
                             None)))
      else (d, None))"

text \<open>The handler from "Update job status" on, once the transition is validated.\<close>

definition apply_job_status ::
  "(db_call \<Rightarrow> bool) \<Rightarrow> timestamp \<Rightarrow> user \<Rightarrow> job \<Rightarrow> (order \<times> (client \<times> user option) option) option
     \<Rightarrow> job_status_body \<Rightarrow> db \<Rightarrow> db \<times> (http_error + job_status_response)" where
  "apply_job_status fails now req_user j loaded body d =
     (let status = sb_status body;
          oldStatus = job_status j
      in if fails Job_update then (d, Inl ServerError)
         else
           let j' = j\<lparr>job_status := status,
                      job_actual_start_time :=
                        (if status = ''in_progress'' \<and> job_actual_start_time j = None
                         then Some now else job_actual_start_time j),
                      job_actual_end_time :=
                        (if status = ''completed'' then Some now else job_actual_end_time j)\<rparr>;
               d1 = d\<lparr>jobs := update_row job_id j' (jobs d)\<rparr>
           in if fails JobStatusUpdate_create then (d1, Inl ServerError)
              else
                let d2 = d1\<lparr>job_status_updates := job_status_updates d1 @
                            [\<lparr>jsu_job_id = job_id j',
                              jsu_previous_status = Some oldStatus,
                              jsu_new_status = status,
                              jsu_updated_by = Some (user_id req_user),
                              jsu_notes = sb_notes body,
                              jsu_location_coordinates = sb_location_coordinates body\<rparr>]\<rparr>
                in (case notify_job_client fails j' loaded d2 of
                      (d3, Some e) \<Rightarrow> (d3, Inl e)
                    | (d3, None) \<Rightarrow>
                        (case update_order_on_completion fails status j' loaded d3 of
                           (d4, Some e) \<Rightarrow> (d4, Inl e)
                         | (d4, None) \<Rightarrow>
                             (d4, Inr \<lparr>resp_job = j',
                                       resp_old_status = oldStatus,
                                       resp_new_status = status\<rparr>))))"

definition put_job_status ::
  "(db_call \<Rightarrow> bool) \<Rightarrow> timestamp \<Rightarrow> user \<Rightarrow> uuid \<Rightarrow> job_status_body \<Rightarrow> db
     \<Rightarrow> db \<times> (http_error + job_status_response)" where
  "put_job_status fails now req_user jobId body d =
     (let errors = job_status_validation body
      in if errors \<noteq> [] then (d, Inl (ValidationErrors errors))
         else if fails Job_findByPk then (d, Inl ServerError)
         else
           (case findByPk job_id (jobs d) jobId of
              None \<Rightarrow> (d, Inl NotFound)
            | Some j \<Rightarrow>
                let isAssignedWorker = (job_assigned_worker_id j = Some (user_id req_user));
                    canManageJobs = canViewAllProjects req_user
                in if \<not> canManageJobs \<and> \<not> isAssignedWorker then (d, Inl AccessDenied)
                   else if \<not> canUpdateStatus j (sb_status body)
                   then (d, Inl (InvalidTransition (job_status j) (getNextValidStatuses j)))
                   else apply_job_status fails now req_user j (include_order d j) body d))"

section \<open>PUT /:orderId/status\<close>

definition requireManagement :: "user \<Rightarrow> bool" where
  "requireManagement u = (user_role u \<in> set [''director'', ''manager'', ''supervisor''])"

definition order_status_validation :: "order_status_body \<Rightarrow> string list" where
  "order_status_validation body =
     (if ob_status body \<in> set
           [''pending'', ''measuring_scheduled'', ''measuring_in_progress'', ''measuring_completed'',
            ''production_scheduled'', ''in_production'', ''production_completed'',
            ''delivery_scheduled'', ''in_delivery'', ''delivered'',
            ''installation_scheduled'', ''installation_in_progress'', ''installation_completed'',
            ''completed'', ''cancelled'']
      then [] else [''status''])"

text \<open>\<open>notes || order.notes\<close>: a missing or empty \<open>notes\<close> keeps the stored notes.\<close>

definition notes_or :: "string option \<Rightarrow> string option \<Rightarrow> string option" where
  "notes_or notes stored =
     (case notes of
        None \<Rightarrow> stored
      | Some n \<Rightarrow> if n = [] then stored else Some n)"

definition put_order_status ::
  "(db_call \<Rightarrow> bool) \<Rightarrow> timestamp \<Rightarrow> user \<Rightarrow> uuid \<Rightarrow> order_status_body \<Rightarrow> db
     \<Rightarrow> db \<times> (http_error + order_status_response)" where
  "put_order_status fails now req_user orderId body d =
     (if \<not> requireManagement req_user then (d, Inl InsufficientPermissions)
      else
        let errors = order_status_validation body
        in if errors \<noteq> [] then (d, Inl (ValidationErrors errors))
           else if fails Order_findByPk then (d, Inl ServerError)
           else
             (case findByPk order_id (orders d) orderId of
                None \<Rightarrow> (d, Inl NotFound)
              | Some ord \<Rightarrow>
                  let status = ob_status body;
                      oldStatus = order_status ord
                  in if fails Order_update then (d, Inl ServerError)
                     else
                       let ord' = ord\<lparr>order_status := status,
                                      order_notes := notes_or (ob_notes body) (order_notes ord),
                                      order_actual_completion_date :=
                                        (if status = ''completed'' then Some now
                                         else order_actual_completion_date ord)\<rparr>;
                           d1 = d\<lparr>orders := update_row order_id ord' (orders d)\<rparr>;
                           response = \<lparr>oresp_order = ord',
                                       oresp_old_status = oldStatus,
                                       oresp_new_status = status\<rparr>
                       in (case include_client d ord of
                             None \<Rightarrow> (d1, Inl ServerError)
                           | Some (c, None) \<Rightarrow> (d1, Inr response)
                           | Some (c, Some clientUser) \<Rightarrow>
                               if fails Notification_create then (d1, Inl ServerError)
                               else (d1\<lparr>notifications := notifications d1 @
                                       [\<lparr>ntf_user_id = user_id clientUser,
                                         ntf_title = ''Order Status Update'',
                                         ntf_message = ''Your order '' @ order_number ord'
                                            @ '' status has been updated to ''
                                            @ Order_getStatusDisplay ord',
                                         ntf_type = ''status_update'',
                                         ntf_related_job_id = None,
                                         ntf_related_order_id = Some (order_id ord')\<rparr>]\<rparr>,
                                     Inr response))))"

section \<open>The order number of a new order\<close>

text \<open>
  \<open>String(n)\<close> for a non-negative integer is its decimal numeral, and
  \<open>s.padStart(6, '0')\<close> puts zeros in front of a string shorter than six characters.
\<close>

definition digit_char :: "nat \<Rightarrow> char" where
  "digit_char d = ''0123456789'' ! d"

function String_of_nat :: "nat \<Rightarrow> string" where
  "String_of_nat n =
     (if n < 10 then [digit_char n]
      else String_of_nat (n div 10) @ [digit_char (n mod 10)])"
  by pat_completeness auto
termination
  by (relation "measure (\<lambda>n. n)") auto

text \<open>The equation of \<open>String_of_nat\<close> is unfolded by hand only.\<close>

declare String_of_nat.simps [simp del]

definition padStart :: "nat \<Rightarrow> char \<Rightarrow> string \<Rightarrow> string" where
  "padStart targetLength padChar s = replicate (targetLength - length s) padChar @ s"

text \<open>
  \<open>Order.count\<close> with the year of \<open>created_at\<close> equal to the given year. The year
  that the database extracts from a timestamp (\<open>extract_year\<close>) and the year that
  \<open>new Date().getFullYear()\<close> gives for the current time (\<open>getFullYear\<close>) are
  parameters: each depends on a time zone.
\<close>

definition Order_count_in_year :: "(timestamp \<Rightarrow> nat) \<Rightarrow> nat \<Rightarrow> order list \<Rightarrow> nat" where
  "Order_count_in_year extract_year year rows =
     length (filter (\<lambda>r. extract_year (order_created_at r) = year) rows)"

text \<open>
  The values given to \<open>Order.create\<close>. An attribute that the caller leaves out is
  \<open>None\<close>.
\<close>

record order_values =
  val_order_number :: "string option"
  val_client_id :: "uuid option"
  val_assigned_manager_id :: "uuid option"
  val_total_amount :: "int option"
  val_estimated_completion_date :: "timestamp option"
  val_notes :: "string option"

text \<open>
  The \<open>beforeCreate\<close> hook of the Order model. \<open>!order.order_number\<close> holds for a
  missing number and for the empty string.
\<close>

definition beforeCreate ::
  "(timestamp \<Rightarrow> nat) \<Rightarrow> (timestamp \<Rightarrow> nat) \<Rightarrow> timestamp \<Rightarrow> order list
     \<Rightarrow> order_values \<Rightarrow> order_values" where
  "beforeCreate getFullYear extract_year now rows v =
     (if val_order_number v = None \<or> val_order_number v = Some [] then
        let year = getFullYear now;
            count = Order_count_in_year extract_year year rows
        in v\<lparr>val_order_number :=
               Some (''WM-'' @ String_of_nat year @ ''-''
                       @ padStart 6 (CHR ''0'') (String_of_nat (count + 1)))\<rparr>
      else v)"

text \<open>
  The validation of the attributes of the Order model: \<open>allowNull: false\<close> on
  \<open>order_number\<close> and on \<open>client_id\<close>, and \<open>min: 0\<close> on \<open>total_amount\<close> (a
  null amount is not validated).
\<close>

definition Order_validate :: "order_values \<Rightarrow> string list" where
  "Order_validate v =
     (if val_order_number v = None
      then [''notNull Violation: Order.order_number cannot be null''] else [])
     @ (if val_client_id v = None
        then [''notNull Violation: Order.client_id cannot be null''] else [])
     @ (case val_total_amount v of
          None \<Rightarrow> []
        | Some amount \<Rightarrow>
            if 0 \<le> amount then [] else [''Validation error: Validation min on total_amount failed''])"

datatype create_error =
    SequelizeValidationError "string list"
  | SequelizeUniqueConstraintError
  | SequelizeDatabaseError

text \<open>
  \<open>Order.create\<close>. Sequelize validates the new instance first and rejects the call
  when a validation fails; only after that it runs the \<open>beforeCreate\<close> hook and
  inserts the row, with the defaults of the model (\<open>pending\<close>, \<open>USD\<close>, the current
  time). The column \<open>order_number\<close> is unique. The primary key of the new row is
  given as \<open>new_id\<close>.
\<close>

definition Order_create ::
  "(timestamp \<Rightarrow> nat) \<Rightarrow> (timestamp \<Rightarrow> nat) \<Rightarrow> timestamp \<Rightarrow> uuid \<Rightarrow> order_values
     \<Rightarrow> order list \<Rightarrow> order list \<times> (create_error + order)" where
  "Order_create getFullYear extract_year now new_id v rows =
     (let errors = Order_validate v
      in if errors \<noteq> [] then (rows, Inl (SequelizeValidationError errors))
         else
           let v' = beforeCreate getFullYear extract_year now rows v
           in (case val_order_number v' of
                 None \<Rightarrow> (rows, Inl SequelizeDatabaseError)
               | Some number \<Rightarrow>
                   (case val_client_id v' of
                      None \<Rightarrow> (rows, Inl SequelizeDatabaseError)
                    | Some client \<Rightarrow>
                        if number \<in> set (map order_number rows)
                        then (rows, Inl SequelizeUniqueConstraintError)
                        else
                          let row = \<lparr>order_id = new_id,
                                     order_number = number,
                                     order_client_id = client,
                                     order_assigned_manager_id = val_assigned_manager_id v',
                                     order_status = ''pending'',
                                     order_total_amount = val_total_amount v',
                                     order_currency = ''USD'',
                                     order_date = now,
                                     order_estimated_completion_date =
                                       val_estimated_completion_date v',
                                     order_actual_completion_date = None,
                                     order_notes = val_notes v',
                                     order_crm_order_id = None,
                                     order_created_at = now\<rparr>
                          in (rows @ [row], Inr row))))"

text \<open>
  The step "Create order" of \<open>POST /orders\<close>, the only caller of \<open>Order.create\<close>:
  the handler passes \<open>client_id\<close>, \<open>assigned_manager_id\<close>, \<open>total_amount\<close>,
  \<open>estimated_completion_date\<close> and \<open>notes\<close> of the request body and no
  \<open>order_number\<close>. A rejected call is caught by the handler, which answers 500.
\<close>

record order_post_body =
  pb_client_id :: uuid
  pb_assigned_manager_id :: "uuid option"
  pb_total_amount :: "int option"
  pb_estimated_completion_date :: "timestamp option"
  pb_notes :: "string option"

definition post_orders_create_values :: "order_post_body \<Rightarrow> order_values" where
  "post_orders_create_values body =
     \<lparr>val_order_number = None,
      val_client_id = Some (pb_client_id body),
      val_assigned_manager_id = pb_assigned_manager_id body,
      val_total_amount = pb_total_amount body,
      val_estimated_completion_date = pb_estimated_completion_date body,
      val_notes = pb_notes body\<rparr>"

definition post_orders_create ::
  "(timestamp \<Rightarrow> nat) \<Rightarrow> (timestamp \<Rightarrow> nat) \<Rightarrow> timestamp \<Rightarrow> uuid \<Rightarrow> order_post_body
     \<Rightarrow> order list \<Rightarrow> order list \<times> (http_error + order)" where
  "post_orders_create getFullYear extract_year now new_id body rows =
     (case Order_create getFullYear extract_year now new_id (post_orders_create_values body) rows of
        (rows', Inl e) \<Rightarrow> (rows', Inl ServerError)
      | (rows', Inr ord) \<Rightarrow> (rows', Inr ord))"

text \<open>Reading a decimal numeral back, to state what a generated number denotes.\<close>

definition digit_value :: "char \<Rightarrow> nat" where
  "digit_value c = of_char c - 48"

definition nat_of_String :: "string \<Rightarrow> nat" where
  "nat_of_String s = foldl (\<lambda>acc c. 10 * acc + digit_value c) 0 s"

definition is_digit :: "char \<Rightarrow> bool" where
  "is_digit c = (c \<in> set ''0123456789'')"

section \<open>Terms used to state the results\<close>

text \<open>
  The job row that \<open>job.update\<close> writes in the job status handler, the audit row that
  \<open>JobStatusUpdate.create\<close> appends, the order row that \<open>order.update\<close> writes in the
  order status handler, and the notification row of that handler.
\<close>

definition job_after :: "timestamp \<Rightarrow> string \<Rightarrow> job \<Rightarrow> job" where
  "job_after now status j =
     j\<lparr>job_status := status,
       job_actual_start_time :=
         (if status = ''in_progress'' \<and> job_actual_start_time j = None
          then Some now else job_actual_start_time j),
       job_actual_end_time :=
         (if status = ''completed'' then Some now else job_actual_end_time j)\<rparr>"

definition audit_row :: "user \<Rightarrow> job \<Rightarrow> job_status_body \<Rightarrow> job_status_update" where
  "audit_row req_user j body =
     \<lparr>jsu_job_id = job_id j,
      jsu_previous_status = Some (job_status j),
      jsu_new_status = sb_status body,
      jsu_updated_by = Some (user_id req_user),
      jsu_notes = sb_notes body,
      jsu_location_coordinates = sb_location_coordinates body\<rparr>"

definition order_after :: "timestamp \<Rightarrow> order_status_body \<Rightarrow> order \<Rightarrow> order" where
  "order_after now body ord =
     ord\<lparr>order_status := ob_status body,
         order_notes := notes_or (ob_notes body) (order_notes ord),
         order_actual_completion_date :=
           (if ob_status body = ''completed'' then Some now
            else order_actual_completion_date ord)\<rparr>"

definition order_status_notification :: "user \<Rightarrow> order \<Rightarrow> notification" where
  "order_status_notification clientUser ord =
     \<lparr>ntf_user_id = user_id clientUser,
      ntf_title = ''Order Status Update'',
      ntf_message = ''Your order '' @ order_number ord @ '' status has been updated to ''
         @ Order_getStatusDisplay ord,
      ntf_type = ''status_update'',
      ntf_related_job_id = None,
      ntf_related_order_id = Some (order_id ord)\<rparr>"

text \<open>
  The derivation rule of section 4.2 as the specification words it, kept apart from
  \<open>orderStatusMap\<close>.
\<close>

definition spec_derived_order_status :: "string \<Rightarrow> string option" where
  "spec_derived_order_status jobType =
     (if jobType = ''measuring'' then Some ''measuring_completed''
      else if jobType = ''delivery'' then Some ''delivered''
      else if jobType = ''installation'' then Some ''installation_completed''
      else None)"

text \<open>
  Two environments: one rejects only the insert of the audit row, the other only the
  write of the job row.
\<close>

definition audit_insert_fails :: "db_call \<Rightarrow> bool" where
  "audit_insert_fails c = (c = JobStatusUpdate_create)"

definition job_update_fails :: "db_call \<Rightarrow> bool" where
  "job_update_fails c = (c = Job_update)"

section \<open>Example data\<close>

text \<open>
  One installation job \<open>j1\<close> of order \<open>o1\<close>, assigned to the installer; the order's
  client has a user account. The job status, its start time and the order status vary.
  A second store has the same rows but a client without a user account. The example
  calendar takes the mean length of a Gregorian year.
\<close>

definition ex_manager :: user where
  "ex_manager = \<lparr>user_id = ''u-manager'', user_role = ''manager''\<rparr>"

definition ex_installer :: user where
  "ex_installer = \<lparr>user_id = ''u-installer'', user_role = ''installer''\<rparr>"

definition ex_client_user :: user where
  "ex_client_user = \<lparr>user_id = ''u-client'', user_role = ''client''\<rparr>"

definition ex_client :: client where
  "ex_client = \<lparr>client_id = ''c1'', client_user_id = Some ''u-client''\<rparr>"

definition ex_order :: "string \<Rightarrow> order" where
  "ex_order st =
     \<lparr>order_id = ''o1'', order_number = ''WM-2024-000001'', order_client_id = ''c1'',
      order_assigned_manager_id = Some ''u-manager'', order_status = st,
      order_total_amount = Some 125000, order_currency = ''USD'', order_date = 1700000000000,
      order_estimated_completion_date = None, order_actual_completion_date = None,
      order_notes = Some ''north side first'', order_crm_order_id = None,
      order_created_at = 1700000000000\<rparr>"

definition ex_job :: "string \<Rightarrow> timestamp option \<Rightarrow> job" where
  "ex_job st started =
     \<lparr>job_id = ''j1'', job_order_id = ''o1'', job_assigned_worker_id = Some ''u-installer'',
      job_type = ''installation'', job_status = st, job_scheduled_date = None,
      job_scheduled_time = None, job_location_address = ''12 Mill Lane'',
      job_estimated_duration = Some 90, job_actual_start_time = started,
      job_actual_end_time = None, job_notes = None\<rparr>"

definition ex_db :: "string \<Rightarrow> timestamp option \<Rightarrow> string \<Rightarrow> db" where
  "ex_db job_st started order_st =
     \<lparr>users = [ex_manager, ex_installer, ex_client_user],
      clients = [ex_client],
      orders = [ex_order order_st],
      jobs = [ex_job job_st started],
      job_status_updates = [],
      notifications = []\<rparr>"

definition ex_body :: "string \<Rightarrow> job_status_body" where
  "ex_body st = \<lparr>sb_status = st, sb_notes = None, sb_location_coordinates = None\<rparr>"

definition ex_audit_row :: "uuid \<Rightarrow> string \<Rightarrow> string \<Rightarrow> job_status_update" where
  "ex_audit_row actor previous new =
     \<lparr>jsu_job_id = ''j1'', jsu_previous_status = Some previous, jsu_new_status = new,
      jsu_updated_by = Some actor, jsu_notes = None, jsu_location_coordinates = None\<rparr>"

definition ex_job_notification :: "string \<Rightarrow> notification" where
  "ex_job_notification shown =
     \<lparr>ntf_user_id = ''u-client'', ntf_title = ''Job Status Update'',
      ntf_message = ''Your Installation job status has been updated to '' @ shown,
      ntf_type = ''status_update'', ntf_related_job_id = Some ''j1'',
      ntf_related_order_id = Some ''o1''\<rparr>"

definition ex_order_body :: "string \<Rightarrow> order_status_body" where
  "ex_order_body st = \<lparr>ob_status = st, ob_notes = None\<rparr>"

definition ex_order_notification :: "string \<Rightarrow> notification" where
  "ex_order_notification shown =
     \<lparr>ntf_user_id = ''u-client'', ntf_title = ''Order Status Update'',
      ntf_message = ''Your order WM-2024-000001 status has been updated to '' @ shown,
      ntf_type = ''status_update'', ntf_related_job_id = None,
      ntf_related_order_id = Some ''o1''\<rparr>"

definition ex_db_client_without_user :: "string \<Rightarrow> db" where
  "ex_db_client_without_user order_st =
     (ex_db ''assigned'' None order_st)
       \<lparr>clients := [\<lparr>client_id = ''c1'', client_user_id = None\<rparr>]\<rparr>"

definition ex_year_of :: "timestamp \<Rightarrow> nat" where
  "ex_year_of t = nat (1970 + t div 31556952000)"

definition ex_post_body :: order_post_body where
  "ex_post_body =
     \<lparr>pb_client_id = ''c1'', pb_assigned_manager_id = Some ''u-manager'',
      pb_total_amount = Some 98000, pb_estimated_completion_date = None,
      pb_notes = Some ''two bay windows''\<rparr>"

definition ex_new_order_row :: order where
  "ex_new_order_row =
     \<lparr>order_id = ''o2'', order_number = ''WM-2023-000002'', order_client_id = ''c1'',
      order_assigned_manager_id = Some ''u-manager'', order_status = ''pending'',
      order_total_amount = Some 98000, order_currency = ''USD'', order_date = 1700000360000,
      order_estimated_completion_date = None, order_actual_completion_date = None,
      order_notes = Some ''two bay windows'', order_crm_order_id = None,
      order_created_at = 1700000360000\<rparr>"

section \<open>Lemmas on the store, the handlers and decimal numerals\<close>

lemma findByPk_Some_pk: "findByPk pk rows k = Some r \<Longrightarrow> pk r = k"
  unfolding findByPk_def by (induction rows) (auto split: if_splits)

lemma findByPk_update_row:
  "findByPk pk rows k = Some r \<Longrightarrow> pk r' = k \<Longrightarrow> findByPk pk (update_row pk r' rows) k = Some r'"
  unfolding findByPk_def update_row_def by (induction rows) (auto split: if_splits)

lemma findByPk_update_row_other:
  "pk r' \<noteq> k \<Longrightarrow> findByPk pk (update_row pk r' rows) k = findByPk pk rows k"
  unfolding findByPk_def update_row_def by (induction rows) (auto split: if_splits)

lemma getNextValidStatuses_spec:
  "job_status j \<in> set Job_status_ENUM \<Longrightarrow> set (getNextValidStatuses j) = spec_allowed_next (job_status j)"
  by (auto simp: Job_status_ENUM_def getNextValidStatuses_def statusFlow_def spec_allowed_next_def)

lemma spec_allowed_next_ENUM:
  "s \<in> spec_allowed_next current \<Longrightarrow> current \<in> set Job_status_ENUM"
  by (auto simp: spec_allowed_next_def Job_status_ENUM_def split: if_splits)

lemma canUpdateStatus_spec:
  "job_status j \<in> set Job_status_ENUM \<Longrightarrow> canUpdateStatus j s \<longleftrightarrow> s \<in> spec_allowed_next (job_status j)"
  by (simp add: canUpdateStatus_def getNextValidStatuses_spec)

lemma notify_job_client_error:
  "notify_job_client fails j loaded d = (d', Some e) \<Longrightarrow> e = ServerError"
  by (auto simp: notify_job_client_def split: option.splits prod.splits if_splits)

lemma update_order_on_completion_error:
  "update_order_on_completion fails s j loaded d = (d', Some e) \<Longrightarrow> e = ServerError"
  by (auto simp: update_order_on_completion_def split: option.splits prod.splits if_splits)

lemma apply_job_status_error:
  "apply_job_status fails now u j loaded body d = (d', Inl e) \<Longrightarrow> e = ServerError"
  by (auto simp: apply_job_status_def Let_def split: option.splits prod.splits if_splits
      dest: notify_job_client_error update_order_on_completion_error)

lemma notify_job_client_frame:
  "notify_job_client fails j loaded d = (d', r) \<Longrightarrow>
     jobs d' = jobs d \<and> job_status_updates d' = job_status_updates d \<and> orders d' = orders d
     \<and> users d' = users d \<and> clients d' = clients d"
  by (auto simp: notify_job_client_def split: option.splits prod.splits if_splits)

lemma update_order_on_completion_frame:
  "update_order_on_completion fails s j loaded d = (d', r) \<Longrightarrow>
     jobs d' = jobs d \<and> job_status_updates d' = job_status_updates d
     \<and> notifications d' = notifications d \<and> users d' = users d \<and> clients d' = clients d"
  by (auto simp: update_order_on_completion_def split: option.splits prod.splits if_splits)

lemma apply_job_status_jobs:
  assumes "apply_job_status fails now u j loaded body d = (d', r)"
  shows "jobs d' = (if fails Job_update then jobs d
                    else update_row job_id (job_after now (sb_status body) j) (jobs d))"
  using assms
  by (auto simp: apply_job_status_def Let_def job_after_def
      split: option.splits prod.splits if_splits
      dest!: notify_job_client_frame update_order_on_completion_frame)

lemma apply_job_status_audit:
  assumes "apply_job_status fails now u j loaded body d = (d', r)"
  shows "job_status_updates d' =
           (if fails Job_update \<or> fails JobStatusUpdate_create then job_status_updates d
            else job_status_updates d @ [audit_row u j body])"
  using assms
  by (auto simp: apply_job_status_def Let_def audit_row_def
      split: option.splits prod.splits if_splits
      dest!: notify_job_client_frame update_order_on_completion_frame)

lemma notify_job_client_ok:
  "\<not> fails Notification_create \<Longrightarrow> snd (notify_job_client fails j (Some (ord, Some cu)) d) = None"
  by (cases cu) (auto simp: notify_job_client_def split: option.splits)

lemma update_order_on_completion_ok:
  "\<not> fails Order_update \<Longrightarrow> snd (update_order_on_completion fails s j (Some (ord, cu)) d) = None"
  by (auto simp: update_order_on_completion_def split: option.splits)

lemma apply_job_status_ok:
  assumes "\<forall>c. \<not> fails c"
  shows "snd (apply_job_status fails now u j (Some (ord, Some cu)) body d) =
           Inr \<lparr>resp_job = job_after now (sb_status body) j,
                resp_old_status = job_status j,
                resp_new_status = sb_status body\<rparr>"
proof -
  have n: "\<not> fails Notification_create" and o: "\<not> fails Order_update"
    and ju: "\<not> fails Job_update" and ac: "\<not> fails JobStatusUpdate_create"
    using assms by blast+
  let ?j' = "job_after now (sb_status body) j"
  let ?d1 = "d\<lparr>jobs := update_row job_id ?j' (jobs d)\<rparr>"
  let ?d2 = "?d1\<lparr>job_status_updates := job_status_updates ?d1 @ [audit_row u j body]\<rparr>"
  obtain d3 where d3: "notify_job_client fails ?j' (Some (ord, Some cu)) ?d2 = (d3, None)"
    using notify_job_client_ok [of fails, OF n] by (metis prod.collapse)
  obtain d4 where d4: "update_order_on_completion fails (sb_status body) ?j' (Some (ord, Some cu)) d3 = (d4, None)"
    using update_order_on_completion_ok [of fails, OF o] by (metis prod.collapse)
  have "apply_job_status fails now u j (Some (ord, Some cu)) body d =
          (d4, Inr \<lparr>resp_job = ?j', resp_old_status = job_status j, resp_new_status = sb_status body\<rparr>)"
    unfolding apply_job_status_def Let_def
    using ju ac d3 d4 by (simp add: job_after_def audit_row_def)
  then show ?thesis by simp
qed

lemma put_job_status_valid:
  assumes "findByPk job_id (jobs d) jobId = Some j"
    and "canViewAllProjects req_user \<or> job_assigned_worker_id j = Some (user_id req_user)"
    and "job_status_validation body = []"
    and "\<not> fails Job_findByPk"
  shows "put_job_status fails now req_user jobId body d =
           (if canUpdateStatus j (sb_status body)
            then apply_job_status fails now req_user j (include_order d j) body d
            else (d, Inl (InvalidTransition (job_status j) (getNextValidStatuses j))))"
  using assms by (auto simp: put_job_status_def Let_def)

lemma apply_job_status_failed_write:
  assumes "fails Job_update \<or> fails JobStatusUpdate_create"
  shows "snd (apply_job_status fails now u j loaded body d) = Inl ServerError"
  using assms by (auto simp: apply_job_status_def Let_def)

lemma apply_job_status_failed_update:
  assumes "fails Job_update"
  shows "apply_job_status fails now u j loaded body d = (d, Inl ServerError)"
  using assms by (simp add: apply_job_status_def Let_def)

lemma put_job_status_Inr:
  assumes "findByPk job_id (jobs d) jobId = Some j"
    and "put_job_status fails now req_user jobId body d = (d', Inr resp)"
  shows "apply_job_status fails now req_user j (include_order d j) body d = (d', Inr resp)"
  using assms
  by (auto simp: put_job_status_def Let_def split: if_splits)

lemma apply_job_status_Inr:
  assumes "apply_job_status fails now u j loaded body d = (d', Inr resp)"
  shows "\<not> fails Job_update \<and> \<not> fails JobStatusUpdate_create
       \<and> resp = \<lparr>resp_job = job_after now (sb_status body) j,
                  resp_old_status = job_status j,
                  resp_new_status = sb_status body\<rparr>"
  using assms
  by (auto simp: apply_job_status_def Let_def job_after_def split: if_splits prod.splits option.splits)

lemma orderStatusMap_spec: "map_of orderStatusMap t = spec_derived_order_status t"
  by (simp add: orderStatusMap_def spec_derived_order_status_def)

lemma spec_derived_order_status_nonempty: "spec_derived_order_status t = Some s \<Longrightarrow> s \<noteq> []"
  by (auto simp: spec_derived_order_status_def split: if_splits)

lemma notify_job_client_None:
  "notify_job_client fails j loaded d = (d', None) \<Longrightarrow> \<exists>ord c. loaded = Some (ord, Some c)"
  by (auto simp: notify_job_client_def split: option.splits prod.splits if_splits)

lemma update_order_on_completion_orders:
  assumes "update_order_on_completion fails s j (Some (ord, c)) d = (d', None)"
  shows "orders d' =
           (if s = ''completed'' then
              (case spec_derived_order_status (job_type j) of
                 None \<Rightarrow> orders d
               | Some derived \<Rightarrow> update_row order_id (ord\<lparr>order_status := derived\<rparr>) (orders d))
            else orders d)"
  using assms
  by (auto simp: update_order_on_completion_def orderStatusMap_spec
      dest: spec_derived_order_status_nonempty split: option.splits if_splits)

lemma apply_job_status_orders:
  assumes "apply_job_status fails now u j loaded body d = (d', Inr resp)"
  shows "\<exists>ord c. loaded = Some (ord, Some c)
           \<and> orders d' =
               (if sb_status body = ''completed'' then
                  (case spec_derived_order_status (job_type j) of
                     None \<Rightarrow> orders d
                   | Some derived \<Rightarrow> update_row order_id (ord\<lparr>order_status := derived\<rparr>) (orders d))
                else orders d)"
proof -
  let ?j' = "job_after now (sb_status body) j"
  let ?d1 = "d\<lparr>jobs := update_row job_id ?j' (jobs d)\<rparr>"
  let ?d2 = "?d1\<lparr>job_status_updates := job_status_updates ?d1 @ [audit_row u j body]\<rparr>"
  obtain d3 where n: "notify_job_client fails ?j' loaded ?d2 = (d3, None)"
    and o: "update_order_on_completion fails (sb_status body) ?j' loaded d3 = (d', None)"
    using assms
    by (auto simp: apply_job_status_def Let_def job_after_def audit_row_def
        split: if_splits prod.splits option.splits)
  obtain ord c where l: "loaded = Some (ord, Some c)"
    using notify_job_client_None [OF n] by blast
  have e: "orders d3 = orders d"
    using notify_job_client_frame [OF n] by simp
  have t: "job_type ?j' = job_type j"
    by (simp add: job_after_def)
  show ?thesis
    using update_order_on_completion_orders [OF o [unfolded l]] l
    unfolding e t by blast
qed

lemma statusProgress_range:
  "map_of statusProgress s = Some v \<Longrightarrow> 0 \<le> v \<and> v \<le> 100"
  by (auto simp: statusProgress_def split: if_splits)

lemma digit_char_cases:
  assumes "d < 10"
  shows "digit_value (digit_char d) = d \<and> is_digit (digit_char d)"
proof -
  have "d \<in> {0, 1, 2, 3, 4, 5, 6, 7, 8, 9}"
    using assms by auto
  then show ?thesis
    by (auto simp: digit_char_def digit_value_def is_digit_def)
qed

lemma nat_of_String_snoc:
  "nat_of_String (s @ [c]) = 10 * nat_of_String s + digit_value c"
  by (simp add: nat_of_String_def)

lemma nat_of_String_of_nat: "nat_of_String (String_of_nat n) = n"
proof (induction n rule: String_of_nat.induct)
  case (1 n)
  show ?case
  proof (cases "n < 10")
    case True
    then show ?thesis
      by (subst String_of_nat.simps) (simp add: nat_of_String_def digit_char_cases)
  next
    case False
    then have "nat_of_String (String_of_nat n)
        = 10 * nat_of_String (String_of_nat (n div 10)) + digit_value (digit_char (n mod 10))"
      by (subst String_of_nat.simps) (simp add: nat_of_String_snoc)
    also have "\<dots> = 10 * (n div 10) + n mod 10"
      using "1.IH" [OF False] by (simp add: digit_char_cases)
    finally show ?thesis by simp
  qed
qed

lemma String_of_nat_digits: "list_all is_digit (String_of_nat n)"
proof (induction n rule: String_of_nat.induct)
  case (1 n)
  show ?case
  proof (cases "n < 10")
    case True
    then show ?thesis
      by (subst String_of_nat.simps) (simp add: digit_char_cases)
  next
    case False
    then show ?thesis
      using "1.IH" [OF False]
      by (subst String_of_nat.simps) (simp add: digit_char_cases)
  qed
qed

lemma String_of_nat_length: "n < 10 ^ k \<Longrightarrow> 0 < k \<Longrightarrow> length (String_of_nat n) \<le> k"
proof (induction n arbitrary: k rule: String_of_nat.induct)
  case (1 n)
  show ?case
  proof (cases "n < 10")
    case True
    then show ?thesis
      using "1.prems" by (subst String_of_nat.simps) simp
  next
    case False
    obtain k' where k: "k = Suc k'"
      using "1.prems"(2) by (cases k) auto
    have "k' \<noteq> 0"
      using False "1.prems"(1) k by (cases k') auto
    moreover have "n div 10 < 10 ^ k'"
      using "1.prems"(1) k by (simp add: less_mult_imp_div_less mult.commute)
    ultimately have "length (String_of_nat (n div 10)) \<le> k'"
      using "1.IH" [OF False, of k'] by simp
    then show ?thesis
      using False k by (subst String_of_nat.simps) simp
  qed
qed

lemma String_of_nat_nonempty: "String_of_nat n \<noteq> []"
  by (subst String_of_nat.simps) simp

lemma nat_of_String_zeros:
  "nat_of_String (replicate k (CHR ''0'') @ s) = nat_of_String s"
proof -
  have "foldl (\<lambda>acc c. 10 * acc + digit_value c) 0 (replicate k (CHR ''0'')) = 0"
    by (induction k) (simp_all add: digit_value_def)
  then show ?thesis
    by (simp add: nat_of_String_def)
qed

lemma padStart_length: "length (padStart n c s) = max n (length s)"
  by (simp add: padStart_def)

lemma String_of_nat_1: "String_of_nat (Suc 0) = ''1''"
  by (subst String_of_nat.simps) (simp add: digit_char_def)

lemma padStart_1: "padStart 6 (CHR ''0'') ''1'' = ''000001''"
  by (simp add: padStart_def numeral_eq_Suc)

lemma beforeCreate_number_format:
  assumes "val_order_number v = None \<or> val_order_number v = Some []"
  shows "val_order_number (beforeCreate getFullYear extract_year now rows v)
           = Some (''WM-'' @ String_of_nat (getFullYear now) @ ''-''
               @ padStart 6 (CHR ''0'')
                   (String_of_nat (Order_count_in_year extract_year (getFullYear now) rows + 1)))
       \<and> nat_of_String (String_of_nat (getFullYear now)) = getFullYear now
       \<and> nat_of_String (padStart 6 (CHR ''0'')
             (String_of_nat (Order_count_in_year extract_year (getFullYear now) rows + 1)))
           = length (filter (\<lambda>r. extract_year (order_created_at r) = getFullYear now) rows) + 1
       \<and> list_all is_digit (padStart 6 (CHR ''0'')
             (String_of_nat (Order_count_in_year extract_year (getFullYear now) rows + 1)))
       \<and> 6 \<le> length (padStart 6 (CHR ''0'')
             (String_of_nat (Order_count_in_year extract_year (getFullYear now) rows + 1)))
       \<and> (Order_count_in_year extract_year (getFullYear now) rows + 1 < 1000000 \<longrightarrow>
            length (padStart 6 (CHR ''0'')
              (String_of_nat (Order_count_in_year extract_year (getFullYear now) rows + 1))) = 6)
       \<and> ((\<forall>r \<in> set rows. extract_year (order_created_at r) \<noteq> getFullYear now) \<longrightarrow>
            val_order_number (beforeCreate getFullYear extract_year now rows v)
              = Some (''WM-'' @ String_of_nat (getFullYear now) @ ''-000001''))"
proof -
  let ?c = "Order_count_in_year extract_year (getFullYear now) rows"
  let ?seq = "padStart 6 (CHR ''0'') (String_of_nat (?c + 1))"
  have n: "val_order_number (beforeCreate getFullYear extract_year now rows v)
           = Some (''WM-'' @ String_of_nat (getFullYear now) @ ''-'' @ ?seq)"
    using assms by (auto simp: beforeCreate_def Let_def)
  have v: "nat_of_String ?seq
      = length (filter (\<lambda>r. extract_year (order_created_at r) = getFullYear now) rows) + 1"
    by (simp add: padStart_def nat_of_String_zeros nat_of_String_of_nat Order_count_in_year_def)
  have z: "is_digit (CHR ''0'')"
    by (simp add: is_digit_def)
  have dg: "list_all is_digit ?seq"
    using String_of_nat_digits [of "?c + 1"] z
    by (auto simp: padStart_def list_all_iff)
  have l6: "6 \<le> length ?seq"
    by (simp add: padStart_length)
  have le: "?c + 1 < 1000000 \<longrightarrow> length ?seq = 6"
  proof
    assume "?c + 1 < 1000000"
    then have "length (String_of_nat (?c + 1)) \<le> 6"
      using String_of_nat_length [of "?c + 1" 6] by simp
    then show "length ?seq = 6"
      by (simp add: padStart_length)
  qed
  have first: "(\<forall>r \<in> set rows. extract_year (order_created_at r) \<noteq> getFullYear now) \<longrightarrow>
            val_order_number (beforeCreate getFullYear extract_year now rows v)
              = Some (''WM-'' @ String_of_nat (getFullYear now) @ ''-000001'')"
  proof
    assume "\<forall>r \<in> set rows. extract_year (order_created_at r) \<noteq> getFullYear now"
    then have "?c = 0"
      by (simp add: Order_count_in_year_def)
    then show "val_order_number (beforeCreate getFullYear extract_year now rows v)
              = Some (''WM-'' @ String_of_nat (getFullYear now) @ ''-000001'')"
      unfolding n by (simp add: String_of_nat_1 padStart_1)
  qed
  show ?thesis
    using n v dg l6 le first nat_of_String_of_nat [of "getFullYear now"]
    by blast
qed

lemma Order_validate_missing_number:
  "val_order_number v = None \<Longrightarrow>
     \<exists>more. Order_validate v = ''notNull Violation: Order.order_number cannot be null'' # more"
  by (simp add: Order_validate_def)

lemma Order_create_rejected:
  "Order_validate v \<noteq> [] \<Longrightarrow>
     Order_create getFullYear extract_year now new_id v rows
       = (rows, Inl (SequelizeValidationError (Order_validate v)))"
  by (simp add: Order_create_def Let_def)

lemma order_status_validation_ENUM:
  "order_status_validation body = [] \<longleftrightarrow> ob_status body \<in> set Order_status_ENUM"
  by (simp add: order_status_validation_def Order_status_ENUM_def)

lemma put_order_status_found:
  assumes "requireManagement req_user"
    and "order_status_validation body = []"
    and "\<not> fails Order_findByPk"
    and "findByPk order_id (orders d) orderId = Some ord"
  shows "put_order_status fails now req_user orderId body d =
           (if fails Order_update then (d, Inl ServerError)
            else
              (case include_client d ord of
                 None \<Rightarrow> (d\<lparr>orders := update_row order_id (order_after now body ord) (orders d)\<rparr>,
                           Inl ServerError)
               | Some (c, None) \<Rightarrow>
                   (d\<lparr>orders := update_row order_id (order_after now body ord) (orders d)\<rparr>,
                    Inr \<lparr>oresp_order = order_after now body ord,
                         oresp_old_status = order_status ord,
                         oresp_new_status = ob_status body\<rparr>)
               | Some (c, Some clientUser) \<Rightarrow>
                   if fails Notification_create
                   then (d\<lparr>orders := update_row order_id (order_after now body ord) (orders d)\<rparr>,
                         Inl ServerError)
                   else (d\<lparr>orders := update_row order_id (order_after now body ord) (orders d),
                           notifications := notifications d @
                             [order_status_notification clientUser (order_after now body ord)]\<rparr>,
                         Inr \<lparr>oresp_order = order_after now body ord,
                              oresp_old_status = order_status ord,
                              oresp_new_status = ob_status body\<rparr>)))"
  using assms
  by (simp add: put_order_status_def Let_def order_after_def order_status_notification_def
      split: option.splits prod.splits)

lemma put_order_status_Inr:
  assumes "findByPk order_id (orders d) orderId = Some ord"
    and "put_order_status fails now req_user orderId body d = (d', Inr resp)"
  shows "resp = \<lparr>oresp_order = order_after now body ord,
                 oresp_old_status = order_status ord,
                 oresp_new_status = ob_status body\<rparr>
       \<and> orders d' = update_row order_id (order_after now body ord) (orders d)
       \<and> users d' = users d \<and> clients d' = clients d \<and> jobs d' = jobs d
       \<and> job_status_updates d' = job_status_updates d"
proof -
  have m: "requireManagement req_user" and v: "order_status_validation body = []"
    and f: "\<not> fails Order_findByPk"
    using assms by (auto simp: put_order_status_def Let_def split: if_splits)
  show ?thesis
    using assms(2) unfolding put_order_status_found [where fails = fails, OF m v f assms(1)]
    by (auto split: if_splits option.splits prod.splits)
qed

section \<open>The handlers on the example data\<close>

lemmas ex_defs = ex_manager_def ex_installer_def ex_client_user_def ex_client_def ex_order_def
  ex_job_def ex_db_def ex_body_def

lemma include_order_ex:
  "include_order (ex_db js st os) (ex_job js st) = Some (ex_order os, Some (ex_client, Some ex_client_user))"
  by (simp add: include_order_def include_client_def findByPk_def ex_defs)

lemma findByPk_ex_job: "findByPk job_id (jobs (ex_db js st os)) ''j1'' = Some (ex_job js st)"
  by (simp add: ex_defs findByPk_def)

lemma validation_ex_body: "st \<in> set Job_status_ENUM \<Longrightarrow> job_status_validation (ex_body st) = []"
  by (simp add: ex_defs job_status_validation_def Job_status_ENUM_def)

lemma ex_put_job_status:
  assumes "st' \<in> set Job_status_ENUM"
    and "canUpdateStatus (ex_job js st) st'"
    and "\<not> fails Job_findByPk"
  shows "put_job_status fails now ex_installer ''j1'' (ex_body st') (ex_db js st os)
       = apply_job_status fails now ex_installer (ex_job js st)
           (Some (ex_order os, Some (ex_client, Some ex_client_user))) (ex_body st') (ex_db js st os)"
proof -
  have w: "canViewAllProjects ex_installer
        \<or> job_assigned_worker_id (ex_job js st) = Some (user_id ex_installer)"
    by (simp add: ex_defs)
  have b: "sb_status (ex_body st') = st'"
    by (simp add: ex_defs)
  show ?thesis
    using put_job_status_valid [where fails = fails and now = now, OF findByPk_ex_job w
        validation_ex_body [OF assms(1)] assms(3)] assms(2)
    by (simp only: b include_order_ex if_True)
qed

lemma ex_canUpdateStatus:
  "canUpdateStatus (ex_job ''arrived'' st) ''in_progress''"
  "canUpdateStatus (ex_job ''in_progress'' st) ''completed''"
  by (simp_all add: canUpdateStatus_def getNextValidStatuses_def statusFlow_def ex_defs)

lemma ex_start_job:
  "put_job_status no_failure 1700000360000 ex_installer ''j1'' (ex_body ''in_progress'')
     (ex_db ''arrived'' None ''installation_scheduled'')
   = ((ex_db ''in_progress'' (Some 1700000360000) ''installation_scheduled'')
        \<lparr>job_status_updates := [ex_audit_row ''u-installer'' ''arrived'' ''in_progress''],
         notifications := [ex_job_notification ''In Progress'']\<rparr>,
      Inr \<lparr>resp_job = ex_job ''in_progress'' (Some 1700000360000),
           resp_old_status = ''arrived'', resp_new_status = ''in_progress''\<rparr>)"
proof -
  have R: "put_job_status no_failure 1700000360000 ex_installer ''j1'' (ex_body ''in_progress'')
             (ex_db ''arrived'' None ''installation_scheduled'')
         = apply_job_status no_failure 1700000360000 ex_installer (ex_job ''arrived'' None)
             (Some (ex_order ''installation_scheduled'', Some (ex_client, Some ex_client_user)))
             (ex_body ''in_progress'') (ex_db ''arrived'' None ''installation_scheduled'')"
    by (rule ex_put_job_status) (simp_all add: Job_status_ENUM_def ex_canUpdateStatus no_failure_def)
  show ?thesis
    unfolding R
    by (simp add: apply_job_status_def Let_def no_failure_def notify_job_client_def
        update_order_on_completion_def)
      (simp add: ex_defs ex_audit_row_def ex_job_notification_def update_row_def
        getJobTypeDisplay_def Job_getStatusDisplay_def lookup_or_str_def Job_typeMap_def
        Job_statusMap_def)
qed

lemma ex_complete_job:
  "put_job_status no_failure 1700000360000 ex_installer ''j1'' (ex_body ''completed'')
     (ex_db ''in_progress'' (Some 1700000100000) ''cancelled'')
   = (\<lparr>users = [ex_manager, ex_installer, ex_client_user],
       clients = [ex_client],
       orders = [ex_order ''installation_completed''],
       jobs = [(ex_job ''completed'' (Some 1700000100000))
                 \<lparr>job_actual_end_time := Some 1700000360000\<rparr>],
       job_status_updates = [ex_audit_row ''u-installer'' ''in_progress'' ''completed''],
       notifications = [ex_job_notification ''Completed'']\<rparr>,
      Inr \<lparr>resp_job = (ex_job ''completed'' (Some 1700000100000))
                         \<lparr>job_actual_end_time := Some 1700000360000\<rparr>,
           resp_old_status = ''in_progress'', resp_new_status = ''completed''\<rparr>)"
proof -
  have R: "put_job_status no_failure 1700000360000 ex_installer ''j1'' (ex_body ''completed'')
             (ex_db ''in_progress'' (Some 1700000100000) ''cancelled'')
         = apply_job_status no_failure 1700000360000 ex_installer
             (ex_job ''in_progress'' (Some 1700000100000))
             (Some (ex_order ''cancelled'', Some (ex_client, Some ex_client_user)))
             (ex_body ''completed'') (ex_db ''in_progress'' (Some 1700000100000) ''cancelled'')"
    by (rule ex_put_job_status) (simp_all add: Job_status_ENUM_def ex_canUpdateStatus no_failure_def)
  show ?thesis
    unfolding R
    by (simp add: apply_job_status_def Let_def no_failure_def notify_job_client_def
        update_order_on_completion_def orderStatusMap_def)
      (simp add: ex_defs ex_audit_row_def ex_job_notification_def update_row_def
        getJobTypeDisplay_def Job_getStatusDisplay_def lookup_or_str_def Job_typeMap_def
        Job_statusMap_def)
qed

lemma ex_year: "ex_year_of 1700000360000 = 2023" "ex_year_of 1700000000000 = 2023"
  by (simp_all add: ex_year_of_def)

lemma ex_numerals: "String_of_nat 2023 = ''2023''" "String_of_nat 2 = ''2''"
  by code_simp+

lemma ex_Order_create_empty_number:
  "Order_create ex_year_of ex_year_of 1700000360000 ''o2''
     ((post_orders_create_values ex_post_body)\<lparr>val_order_number := Some []\<rparr>)
     [ex_order ''pending'']
   = ([ex_order ''pending'', ex_new_order_row], Inr ex_new_order_row)"
proof -
  let ?v = "(post_orders_create_values ex_post_body)\<lparr>val_order_number := Some []\<rparr>"
  have ok: "Order_validate ?v = []"
    by (simp add: Order_validate_def post_orders_create_values_def ex_post_body_def)
  have c: "Order_count_in_year ex_year_of 2023 [ex_order ''pending''] = 1"
    by (simp add: Order_count_in_year_def ex_order_def ex_year)
  have p: "padStart 6 (CHR ''0'') ''2'' = ''000002''"
    by (simp add: padStart_def numeral_eq_Suc)
  have "val_order_number (beforeCreate ex_year_of ex_year_of 1700000360000 [ex_order ''pending''] ?v)
      = Some (''WM-'' @ String_of_nat 2023 @ ''-'' @ padStart 6 (CHR ''0'') (String_of_nat 2))"
    by (simp only: beforeCreate_def Let_def ex_year c one_add_one)
      (simp add: post_orders_create_values_def)
  then have n: "beforeCreate ex_year_of ex_year_of 1700000360000 [ex_order ''pending''] ?v
      = ?v\<lparr>val_order_number := Some ''WM-2023-000002''\<rparr>"
    by (simp add: beforeCreate_def Let_def ex_numerals p)
  show ?thesis
    unfolding Order_create_def Let_def ok n
    by (simp add: post_orders_create_values_def ex_post_body_def ex_new_order_row_def ex_order_def)
qed

lemma ex_post_orders_create_rejected:
  "post_orders_create ex_year_of ex_year_of 1700000360000 ''o2'' ex_post_body [ex_order ''pending'']
     = ([ex_order ''pending''], Inl ServerError)
   \<and> Order_create ex_year_of ex_year_of 1700000360000 ''o2'' (post_orders_create_values ex_post_body)
       [ex_order ''pending'']
     = ([ex_order ''pending''],
        Inl (SequelizeValidationError [''notNull Violation: Order.order_number cannot be null'']))"
proof -
  have v: "Order_validate (post_orders_create_values ex_post_body)
      = [''notNull Violation: Order.order_number cannot be null'']"
    by (simp add: Order_validate_def post_orders_create_values_def ex_post_body_def)
  then have r: "Order_create ex_year_of ex_year_of 1700000360000 ''o2''
       (post_orders_create_values ex_post_body) [ex_order ''pending'']
     = ([ex_order ''pending''],
        Inl (SequelizeValidationError [''notNull Violation: Order.order_number cannot be null'']))"
    by (simp add: Order_create_rejected)
  show ?thesis
    by (simp add: post_orders_create_def r)
qed

lemma findByPk_ex_order: "findByPk order_id (orders (ex_db js st os)) ''o1'' = Some (ex_order os)"
  by (simp add: ex_defs findByPk_def)

lemma include_client_ex:
  "include_client (ex_db js st os) (ex_order os) = Some (ex_client, Some ex_client_user)"
  by (simp add: include_client_def findByPk_def ex_defs)

lemma ex_manager_management: "requireManagement ex_manager"
  by (simp add: requireManagement_def ex_manager_def)

lemma ex_set_order_status:
  "put_order_status no_failure 1700000360000 ex_manager ''o1'' (ex_order_body ''in_production'')
     (ex_db ''completed'' (Some 1700000100000) ''measuring_completed'')
   = ((ex_db ''completed'' (Some 1700000100000) ''in_production'')
        \<lparr>notifications := [ex_order_notification ''In Production'']\<rparr>,
      Inr \<lparr>oresp_order = ex_order ''in_production'', oresp_old_status = ''measuring_completed'',
           oresp_new_status = ''in_production''\<rparr>)"
proof -
  have v: "order_status_validation (ex_order_body ''in_production'') = []"
    by (simp add: order_status_validation_def ex_order_body_def)
  have n: "\<not> no_failure Order_findByPk"
    by (simp add: no_failure_def)
  show ?thesis
    unfolding put_order_status_found [where fails = no_failure, OF ex_manager_management v n
        findByPk_ex_order] include_client_ex
    by (simp add: no_failure_def order_after_def order_status_notification_def)
      (simp add: ex_defs ex_order_body_def notes_or_def ex_order_notification_def update_row_def
        Order_getStatusDisplay_def lookup_or_str_def Order_statusMap_def)
qed

section \<open>Job status transitions\<close>

text \<open>
  C1. A requested job status is accepted exactly when it is in the allowed-next set of
  the job's current status in the table of section 4.1: \<open>canUpdateStatus\<close> agrees with
  the table, nothing is accepted from \<open>completed\<close> or \<open>cancelled\<close>, and the handler,
  for a job that exists, a caller who may update it and a well-formed body, answers with
  the invalid-transition error exactly when the requested status is outside the set.
\<close>

theorem job_transition_accepted_iff_in_table:
  assumes "job_status j \<in> set Job_status_ENUM"
    and "findByPk job_id (jobs d) jobId = Some j"
    and "canViewAllProjects req_user \<or> job_assigned_worker_id j = Some (user_id req_user)"
    and "job_status_validation body = []"
    and "\<not> fails Job_findByPk"
  shows "(canUpdateStatus j requested \<longleftrightarrow> requested \<in> spec_allowed_next (job_status j))
       \<and> (job_status j \<in> {''completed'', ''cancelled''} \<longrightarrow> \<not> canUpdateStatus j requested)
       \<and> (put_job_status fails now req_user jobId body d =
              (d, Inl (InvalidTransition (job_status j) (getNextValidStatuses j)))
            \<longleftrightarrow> sb_status body \<notin> spec_allowed_next (job_status j))"
proof (intro conjI)
  show a: "canUpdateStatus j requested \<longleftrightarrow> requested \<in> spec_allowed_next (job_status j)"
    using assms(1) by (rule canUpdateStatus_spec)
  show "job_status j \<in> {''completed'', ''cancelled''} \<longrightarrow> \<not> canUpdateStatus j requested"
    unfolding a by (auto simp: spec_allowed_next_def)
  have b: "canUpdateStatus j (sb_status body) \<longleftrightarrow> sb_status body \<in> spec_allowed_next (job_status j)"
    using assms(1) by (rule canUpdateStatus_spec)
  show "put_job_status fails now req_user jobId body d =
              (d, Inl (InvalidTransition (job_status j) (getNextValidStatuses j)))
            \<longleftrightarrow> sb_status body \<notin> spec_allowed_next (job_status j)"
    unfolding put_job_status_valid [where fails = fails, OF assms(2-5)] b [symmetric]
    by (auto dest: apply_job_status_error)
qed

theorem job_transition_accepted_iff_in_table_witness:
  "job_status (ex_job ''completed'' None) \<in> set Job_status_ENUM
   \<and> findByPk job_id (jobs (ex_db ''completed'' None ''delivered'')) ''j1'' = Some (ex_job ''completed'' None)
   \<and> (canViewAllProjects ex_installer
        \<or> job_assigned_worker_id (ex_job ''completed'' None) = Some (user_id ex_installer))
   \<and> job_status_validation (ex_body ''cancelled'') = []
   \<and> \<not> no_failure Job_findByPk
   \<and> \<not> canUpdateStatus (ex_job ''completed'' None) ''en_route''
   \<and> put_job_status no_failure 1700000360000 ex_installer ''j1'' (ex_body ''cancelled'')
        (ex_db ''completed'' None ''delivered'')
      = (ex_db ''completed'' None ''delivered'', Inl (InvalidTransition ''completed'' []))"
proof -
  have h1: "job_status (ex_job ''completed'' None) \<in> set Job_status_ENUM"
    by (simp add: ex_defs Job_status_ENUM_def)
  have h2: "findByPk job_id (jobs (ex_db ''completed'' None ''delivered'')) ''j1'' = Some (ex_job ''completed'' None)"
    by (simp add: ex_defs findByPk_def)
  have h3: "canViewAllProjects ex_installer
        \<or> job_assigned_worker_id (ex_job ''completed'' None) = Some (user_id ex_installer)"
    by (simp add: ex_defs)
  have h4: "job_status_validation (ex_body ''cancelled'') = []"
    by (simp add: ex_defs job_status_validation_def)
  have h5: "\<not> no_failure Job_findByPk"
    by (simp add: no_failure_def)
  have nx: "getNextValidStatuses (ex_job ''completed'' None) = []"
    by (simp add: ex_defs getNextValidStatuses_def statusFlow_def)
  have st: "job_status (ex_job ''completed'' None) = ''completed''"
    by (simp add: ex_defs)
  show ?thesis
    using job_transition_accepted_iff_in_table [where fails = no_failure and requested = "''en_route''"
        and now = 1700000360000, OF h1 h2 h3 h4 h5]
      h1 h2 h3 h4 h5
    by (simp add: nx st spec_allowed_next_def)
qed

text \<open>
  C2. For a job that exists, a caller who may update it and a well-formed body, a
  requested status outside the allowed-next set of the job's current status makes the
  handler fail with the invalid-transition error, which carries the current status and
  all valid next statuses; the store is returned as it was, so the job's stored status
  and its \<open>actual_start_time\<close> are unchanged.
\<close>

theorem invalid_transition_rejected_job_unchanged:
  assumes "job_status j \<in> set Job_status_ENUM"
    and "findByPk job_id (jobs d) jobId = Some j"
    and "canViewAllProjects req_user \<or> job_assigned_worker_id j = Some (user_id req_user)"
    and "job_status_validation body = []"
    and "\<not> fails Job_findByPk"
    and "sb_status body \<notin> spec_allowed_next (job_status j)"
  shows "put_job_status fails now req_user jobId body d =
           (d, Inl (InvalidTransition (job_status j) (getNextValidStatuses j)))
       \<and> set (getNextValidStatuses j) = spec_allowed_next (job_status j)
       \<and> map_option job_status
            (findByPk job_id (jobs (fst (put_job_status fails now req_user jobId body d))) jobId)
           = Some (job_status j)
       \<and> map_option job_actual_start_time
            (findByPk job_id (jobs (fst (put_job_status fails now req_user jobId body d))) jobId)
           = Some (job_actual_start_time j)"
proof -
  have "\<not> canUpdateStatus j (sb_status body)"
    using assms(1,6) by (simp add: canUpdateStatus_spec)
  then have r: "put_job_status fails now req_user jobId body d =
           (d, Inl (InvalidTransition (job_status j) (getNextValidStatuses j)))"
    using put_job_status_valid [where fails = fails, OF assms(2-5)] by simp
  show ?thesis
    unfolding r using assms(1,2) by (simp add: getNextValidStatuses_spec)
qed

theorem invalid_transition_rejected_job_unchanged_witness:
  "job_status (ex_job ''in_progress'' (Some 1700000100000)) \<in> set Job_status_ENUM
   \<and> findByPk job_id (jobs (ex_db ''in_progress'' (Some 1700000100000) ''delivered'')) ''j1''
       = Some (ex_job ''in_progress'' (Some 1700000100000))
   \<and> (canViewAllProjects ex_installer
        \<or> job_assigned_worker_id (ex_job ''in_progress'' (Some 1700000100000))
            = Some (user_id ex_installer))
   \<and> job_status_validation (ex_body ''in_progress'') = []
   \<and> \<not> no_failure Job_findByPk
   \<and> sb_status (ex_body ''in_progress'')
        \<notin> spec_allowed_next (job_status (ex_job ''in_progress'' (Some 1700000100000)))
   \<and> put_job_status no_failure 1700000360000 ex_installer ''j1'' (ex_body ''in_progress'')
        (ex_db ''in_progress'' (Some 1700000100000) ''delivered'')
      = (ex_db ''in_progress'' (Some 1700000100000) ''delivered'',
         Inl (InvalidTransition ''in_progress'' [''completed'', ''cancelled'']))
   \<and> map_option job_actual_start_time
        (findByPk job_id (jobs (fst (put_job_status no_failure 1700000360000 ex_installer ''j1''
           (ex_body ''in_progress'') (ex_db ''in_progress'' (Some 1700000100000) ''delivered'')))) ''j1'')
      = Some (Some 1700000100000)"
proof -
  let ?j = "ex_job ''in_progress'' (Some 1700000100000)"
  let ?d = "ex_db ''in_progress'' (Some 1700000100000) ''delivered''"
  have h1: "job_status ?j \<in> set Job_status_ENUM"
    by (simp add: ex_defs Job_status_ENUM_def)
  have h2: "findByPk job_id (jobs ?d) ''j1'' = Some ?j"
    by (simp add: ex_defs findByPk_def)
  have h3: "canViewAllProjects ex_installer
        \<or> job_assigned_worker_id ?j = Some (user_id ex_installer)"
    by (simp add: ex_defs)
  have h4: "job_status_validation (ex_body ''in_progress'') = []"
    by (simp add: ex_defs job_status_validation_def)
  have h5: "\<not> no_failure Job_findByPk"
    by (simp add: no_failure_def)
  have h6: "sb_status (ex_body ''in_progress'') \<notin> spec_allowed_next (job_status ?j)"
    by (simp add: ex_defs spec_allowed_next_def)
  have nx: "getNextValidStatuses ?j = [''completed'', ''cancelled'']"
    by (simp add: ex_defs getNextValidStatuses_def statusFlow_def)
  have st: "job_status ?j = ''in_progress''" "job_actual_start_time ?j = Some 1700000100000"
    by (simp_all add: ex_defs)
  show ?thesis
    using invalid_transition_rejected_job_unchanged [where fails = no_failure
        and now = 1700000360000, OF h1 h2 h3 h4 h5 h6]
      h1 h2 h3 h4 h5 h6
    by (simp add: nx st)
qed

text \<open>
  C3. For every pair of the transition table the handler succeeds when no call on the
  store is rejected and the job's order and client are loaded: the stored status of the
  job is then the requested one, and exactly one audit row is appended, whose previous
  status is the old status and whose new status is the requested one.
\<close>

theorem valid_transition_succeeds_with_one_audit_row:
  assumes "findByPk job_id (jobs d) jobId = Some j"
    and "canViewAllProjects req_user \<or> job_assigned_worker_id j = Some (user_id req_user)"
    and "job_status_validation body = []"
    and "\<forall>c. \<not> fails c"
    and "sb_status body \<in> spec_allowed_next (job_status j)"
    and "include_order d j = Some (ord, Some cu)"
  shows "(\<exists>j'. snd (put_job_status fails now req_user jobId body d) =
                 Inr \<lparr>resp_job = j', resp_old_status = job_status j,
                      resp_new_status = sb_status body\<rparr>
              \<and> findByPk job_id (jobs (fst (put_job_status fails now req_user jobId body d))) jobId
                  = Some j'
              \<and> job_status j' = sb_status body)
       \<and> (\<exists>r. job_status_updates (fst (put_job_status fails now req_user jobId body d))
                  = job_status_updates d @ [r]
              \<and> jsu_job_id r = jobId
              \<and> jsu_previous_status r = Some (job_status j)
              \<and> jsu_new_status r = sb_status body)"
proof -
  let ?R = "put_job_status fails now req_user jobId body d"
  let ?j' = "job_after now (sb_status body) j"
  have nf: "\<not> fails Job_findByPk" "\<not> fails Job_update" "\<not> fails JobStatusUpdate_create"
    using assms(4) by blast+
  have can: "canUpdateStatus j (sb_status body)"
    using assms(5) spec_allowed_next_ENUM [OF assms(5)] by (simp add: canUpdateStatus_spec)
  have R: "?R = apply_job_status fails now req_user j (Some (ord, Some cu)) body d"
    using put_job_status_valid [where fails = fails, OF assms(1-3) nf(1)] can assms(6) by simp
  have ap: "apply_job_status fails now req_user j (Some (ord, Some cu)) body d = (fst ?R, snd ?R)"
    unfolding R by simp
  have id: "job_id j = jobId"
    using assms(1) by (rule findByPk_Some_pk)
  have res: "snd ?R = Inr \<lparr>resp_job = ?j', resp_old_status = job_status j,
                          resp_new_status = sb_status body\<rparr>"
    unfolding R using assms(4) by (rule apply_job_status_ok)
  have js: "jobs (fst ?R) = update_row job_id ?j' (jobs d)"
    using apply_job_status_jobs [OF ap] nf by simp
  have stored: "findByPk job_id (jobs (fst ?R)) jobId = Some ?j'"
    unfolding js using assms(1) by (rule findByPk_update_row) (simp add: job_after_def id)
  have au: "job_status_updates (fst ?R) = job_status_updates d @ [audit_row req_user j body]"
    using apply_job_status_audit [OF ap] nf by simp
  have "\<exists>j'. snd ?R = Inr \<lparr>resp_job = j', resp_old_status = job_status j,
                              resp_new_status = sb_status body\<rparr>
           \<and> findByPk job_id (jobs (fst ?R)) jobId = Some j'
           \<and> job_status j' = sb_status body"
    using res stored by (intro exI [of _ ?j']) (simp add: job_after_def)
  moreover have "\<exists>r. job_status_updates (fst ?R) = job_status_updates d @ [r]
              \<and> jsu_job_id r = jobId
              \<and> jsu_previous_status r = Some (job_status j)
              \<and> jsu_new_status r = sb_status body"
    using au id by (intro exI [of _ "audit_row req_user j body"]) (simp add: audit_row_def)
  ultimately show ?thesis by blast
qed

theorem valid_transition_succeeds_with_one_audit_row_witness:
  "findByPk job_id (jobs (ex_db ''assigned'' None ''installation_scheduled'')) ''j1''
       = Some (ex_job ''assigned'' None)
   \<and> (canViewAllProjects ex_manager
        \<or> job_assigned_worker_id (ex_job ''assigned'' None) = Some (user_id ex_manager))
   \<and> job_status_validation (ex_body ''en_route'') = []
   \<and> (\<forall>c. \<not> no_failure c)
   \<and> sb_status (ex_body ''en_route'') \<in> spec_allowed_next (job_status (ex_job ''assigned'' None))
   \<and> include_order (ex_db ''assigned'' None ''installation_scheduled'') (ex_job ''assigned'' None)
       = Some (ex_order ''installation_scheduled'', Some (ex_client, Some ex_client_user))
   \<and> (\<exists>j'. snd (put_job_status no_failure 1700000360000 ex_manager ''j1'' (ex_body ''en_route'')
                   (ex_db ''assigned'' None ''installation_scheduled''))
               = Inr \<lparr>resp_job = j', resp_old_status = ''assigned'', resp_new_status = ''en_route''\<rparr>
            \<and> findByPk job_id
                 (jobs (fst (put_job_status no_failure 1700000360000 ex_manager ''j1''
                    (ex_body ''en_route'') (ex_db ''assigned'' None ''installation_scheduled'')))) ''j1''
                = Some j'
            \<and> job_status j' = ''en_route'')
   \<and> (\<exists>r. job_status_updates
              (fst (put_job_status no_failure 1700000360000 ex_manager ''j1'' (ex_body ''en_route'')
                 (ex_db ''assigned'' None ''installation_scheduled'')))
             = [r]
            \<and> jsu_job_id r = ''j1''
            \<and> jsu_previous_status r = Some ''assigned''
            \<and> jsu_new_status r = ''en_route'')"
proof -
  let ?j = "ex_job ''assigned'' None"
  let ?d = "ex_db ''assigned'' None ''installation_scheduled''"
  have h2: "findByPk job_id (jobs ?d) ''j1'' = Some ?j"
    by (rule findByPk_ex_job)
  have h3: "canViewAllProjects ex_manager \<or> job_assigned_worker_id ?j = Some (user_id ex_manager)"
    by (simp add: ex_defs canViewAllProjects_def)
  have h4: "job_status_validation (ex_body ''en_route'') = []"
    by (simp add: validation_ex_body Job_status_ENUM_def)
  have h5: "\<forall>c. \<not> no_failure c"
    by (simp add: no_failure_def)
  have h6: "sb_status (ex_body ''en_route'') \<in> spec_allowed_next (job_status ?j)"
    by (simp add: ex_defs spec_allowed_next_def)
  have h7: "include_order ?d ?j = Some (ex_order ''installation_scheduled'', Some (ex_client, Some ex_client_user))"
    by (rule include_order_ex)
  have st: "job_status ?j = ''assigned''" "sb_status (ex_body ''en_route'') = ''en_route''"
    "job_status_updates ?d = []"
    by (simp_all add: ex_defs)
  show ?thesis
    using valid_transition_succeeds_with_one_audit_row [where fails = no_failure
        and now = 1700000360000, OF h2 h3 h4 h5 h6 h7]
      h2 h3 h4 h5 h6 h7
    by (simp add: st)
qed

section \<open>Atomicity of the status write and the audit insert\<close>

text \<open>
  C4, as stated, does not hold. The status write and the audit insert are two separate
  calls without a transaction. When the insert of the audit row is rejected after the
  job row was written, the handler answers 500, the new status stays in the store, and
  no audit row exists for it.
\<close>

theorem status_change_without_audit_row:
  "snd (put_job_status audit_insert_fails 1700000360000 ex_installer ''j1'' (ex_body ''en_route'')
          (ex_db ''assigned'' None ''installation_scheduled''))
     = Inl ServerError
   \<and> map_option job_status
        (findByPk job_id
           (jobs (fst (put_job_status audit_insert_fails 1700000360000 ex_installer ''j1''
              (ex_body ''en_route'') (ex_db ''assigned'' None ''installation_scheduled'')))) ''j1'')
     = Some ''en_route''
   \<and> job_status_updates
        (fst (put_job_status audit_insert_fails 1700000360000 ex_installer ''j1''
           (ex_body ''en_route'') (ex_db ''assigned'' None ''installation_scheduled'')))
     = []"
proof -
  let ?j = "ex_job ''assigned'' None"
  let ?d = "ex_db ''assigned'' None ''installation_scheduled''"
  have can: "canUpdateStatus ?j ''en_route''"
    by (simp add: canUpdateStatus_def getNextValidStatuses_def statusFlow_def ex_defs)
  have R: "put_job_status audit_insert_fails 1700000360000 ex_installer ''j1'' (ex_body ''en_route'') ?d
         = apply_job_status audit_insert_fails 1700000360000 ex_installer ?j (include_order ?d ?j)
             (ex_body ''en_route'') ?d"
    using put_job_status_valid [where fails = audit_insert_fails and body = "ex_body ''en_route''"
        and req_user = ex_installer, OF findByPk_ex_job] can
    by (simp add: validation_ex_body Job_status_ENUM_def audit_insert_fails_def)
      (simp add: ex_defs)
  show ?thesis
    unfolding R
    by (simp add: apply_job_status_def Let_def audit_insert_fails_def)
      (simp add: ex_defs findByPk_def update_row_def)
qed

text \<open>
  C4, amended. For a validated transition the job row is written first and the audit
  row second. When the job write is rejected, nothing is changed and the handler
  answers 500; when the job write goes through and the audit insert is rejected, the new
  status is stored, no audit row is appended and the handler answers 500; when both go
  through, the new status is stored and exactly the audit row of this transition is
  appended.
\<close>

theorem job_status_write_then_audit_insert:
  assumes "findByPk job_id (jobs d) jobId = Some j"
    and "canViewAllProjects req_user \<or> job_assigned_worker_id j = Some (user_id req_user)"
    and "job_status_validation body = []"
    and "\<not> fails Job_findByPk"
    and "canUpdateStatus j (sb_status body)"
  shows "if fails Job_update
         then put_job_status fails now req_user jobId body d = (d, Inl ServerError)
         else map_option job_status
                (findByPk job_id (jobs (fst (put_job_status fails now req_user jobId body d))) jobId)
               = Some (sb_status body)
            \<and> (if fails JobStatusUpdate_create
                then job_status_updates (fst (put_job_status fails now req_user jobId body d))
                       = job_status_updates d
                   \<and> snd (put_job_status fails now req_user jobId body d) = Inl ServerError
                else job_status_updates (fst (put_job_status fails now req_user jobId body d))
                       = job_status_updates d @
                           [\<lparr>jsu_job_id = jobId,
                             jsu_previous_status = Some (job_status j),
                             jsu_new_status = sb_status body,
                             jsu_updated_by = Some (user_id req_user),
                             jsu_notes = sb_notes body,
                             jsu_location_coordinates = sb_location_coordinates body\<rparr>])"
proof -
  let ?R = "put_job_status fails now req_user jobId body d"
  let ?j' = "job_after now (sb_status body) j"
  have R: "?R = apply_job_status fails now req_user j (include_order d j) body d"
    using put_job_status_valid [where fails = fails, OF assms(1-4)] assms(5) by simp
  have ap: "apply_job_status fails now req_user j (include_order d j) body d = (fst ?R, snd ?R)"
    unfolding R by simp
  have id: "job_id j = jobId"
    using assms(1) by (rule findByPk_Some_pk)
  have js: "jobs (fst ?R) = (if fails Job_update then jobs d else update_row job_id ?j' (jobs d))"
    by (rule apply_job_status_jobs [OF ap])
  have stored: "findByPk job_id (update_row job_id ?j' (jobs d)) jobId = Some ?j'"
    using assms(1) by (rule findByPk_update_row) (simp add: job_after_def id)
  have c1: "\<not> fails Job_update \<Longrightarrow>
      map_option job_status (findByPk job_id (jobs (fst ?R)) jobId) = Some (sb_status body)"
    unfolding js using stored by (simp add: job_after_def)
  have c2: "job_status_updates (fst ?R)
          = (if fails Job_update \<or> fails JobStatusUpdate_create then job_status_updates d
             else job_status_updates d @ [audit_row req_user j body])"
    by (rule apply_job_status_audit [OF ap])
  have c3: "fails Job_update \<or> fails JobStatusUpdate_create \<Longrightarrow> snd ?R = Inl ServerError"
    unfolding R by (simp add: apply_job_status_failed_write)
  have c4: "fails Job_update \<Longrightarrow> ?R = (d, Inl ServerError)"
    unfolding R by (simp add: apply_job_status_failed_update)
  show ?thesis
    using c1 c2 c3 c4 by (simp add: audit_row_def id)
qed

theorem job_status_write_then_audit_insert_witness:
  "findByPk job_id (jobs (ex_db ''arrived'' None ''installation_scheduled'')) ''j1''
      = Some (ex_job ''arrived'' None)
   \<and> (canViewAllProjects ex_installer
        \<or> job_assigned_worker_id (ex_job ''arrived'' None) = Some (user_id ex_installer))
   \<and> job_status_validation (ex_body ''in_progress'') = []
   \<and> canUpdateStatus (ex_job ''arrived'' None) (sb_status (ex_body ''in_progress''))
   \<and> \<not> job_update_fails Job_findByPk
   \<and> job_update_fails Job_update
   \<and> put_job_status job_update_fails 1700000360000 ex_installer ''j1''
         (ex_body ''in_progress'') (ex_db ''arrived'' None ''installation_scheduled'')
       = (ex_db ''arrived'' None ''installation_scheduled'', Inl ServerError)
   \<and> \<not> audit_insert_fails Job_findByPk
   \<and> \<not> audit_insert_fails Job_update
   \<and> audit_insert_fails JobStatusUpdate_create
   \<and> map_option job_status
        (findByPk job_id
           (jobs (fst (put_job_status audit_insert_fails 1700000360000 ex_installer ''j1''
              (ex_body ''in_progress'') (ex_db ''arrived'' None ''installation_scheduled'')))) ''j1'')
      = Some ''in_progress''
   \<and> job_status_updates
        (fst (put_job_status audit_insert_fails 1700000360000 ex_installer ''j1''
           (ex_body ''in_progress'') (ex_db ''arrived'' None ''installation_scheduled'')))
      = []
   \<and> snd (put_job_status audit_insert_fails 1700000360000 ex_installer ''j1''
           (ex_body ''in_progress'') (ex_db ''arrived'' None ''installation_scheduled''))
      = Inl ServerError
   \<and> \<not> no_failure Job_findByPk
   \<and> \<not> no_failure Job_update
   \<and> \<not> no_failure JobStatusUpdate_create
   \<and> job_status_updates
        (fst (put_job_status no_failure 1700000360000 ex_installer ''j1''
           (ex_body ''in_progress'') (ex_db ''arrived'' None ''installation_scheduled'')))
      = [ex_audit_row ''u-installer'' ''arrived'' ''in_progress'']"
proof -
  let ?j = "ex_job ''arrived'' None"
  let ?d = "ex_db ''arrived'' None ''installation_scheduled''"
  have h1: "findByPk job_id (jobs ?d) ''j1'' = Some ?j"
    by (rule findByPk_ex_job)
  have h2: "canViewAllProjects ex_installer \<or> job_assigned_worker_id ?j = Some (user_id ex_installer)"
    by (simp add: ex_defs)
  have h3: "job_status_validation (ex_body ''in_progress'') = []"
    by (simp add: validation_ex_body Job_status_ENUM_def)
  have h5: "canUpdateStatus ?j (sb_status (ex_body ''in_progress''))"
    by (simp add: canUpdateStatus_def getNextValidStatuses_def statusFlow_def ex_defs)
  have f1: "\<not> job_update_fails Job_findByPk" "job_update_fails Job_update"
    by (simp_all add: job_update_fails_def)
  have f2: "\<not> audit_insert_fails Job_findByPk" "\<not> audit_insert_fails Job_update"
    "audit_insert_fails JobStatusUpdate_create"
    by (simp_all add: audit_insert_fails_def)
  have f3: "\<not> no_failure Job_findByPk" "\<not> no_failure Job_update"
    "\<not> no_failure JobStatusUpdate_create"
    by (simp_all add: no_failure_def)
  have st: "sb_status (ex_body ''in_progress'') = ''in_progress''" "job_status_updates ?d = []"
    "job_status ?j = ''arrived''" "sb_notes (ex_body ''in_progress'') = None"
    "sb_location_coordinates (ex_body ''in_progress'') = None" "user_id ex_installer = ''u-installer''"
    by (simp_all add: ex_defs)
  have a: "put_job_status job_update_fails 1700000360000 ex_installer ''j1''
         (ex_body ''in_progress'') ?d = (?d, Inl ServerError)"
    using job_status_write_then_audit_insert [where fails = job_update_fails
        and now = 1700000360000, OF h1 h2 h3 f1(1) h5] f1(2)
    by simp
  have b: "map_option job_status
        (findByPk job_id
           (jobs (fst (put_job_status audit_insert_fails 1700000360000 ex_installer ''j1''
              (ex_body ''in_progress'') ?d))) ''j1'')
      = Some ''in_progress''
    \<and> job_status_updates
        (fst (put_job_status audit_insert_fails 1700000360000 ex_installer ''j1''
           (ex_body ''in_progress'') ?d))
      = []
    \<and> snd (put_job_status audit_insert_fails 1700000360000 ex_installer ''j1''
           (ex_body ''in_progress'') ?d)
      = Inl ServerError"
    using job_status_write_then_audit_insert [where fails = audit_insert_fails
        and now = 1700000360000, OF h1 h2 h3 f2(1) h5] f2(2,3)
    by (simp add: st)
  have c: "job_status_updates
        (fst (put_job_status no_failure 1700000360000 ex_installer ''j1''
           (ex_body ''in_progress'') ?d))
      = [ex_audit_row ''u-installer'' ''arrived'' ''in_progress'']"
    using job_status_write_then_audit_insert [where fails = no_failure
        and now = 1700000360000, OF h1 h2 h3 f3(1) h5] f3(2,3)
    by (simp add: st ex_audit_row_def)
  show ?thesis
    using h1 h2 h3 h5 f1 f2 f3 a b c by blast
qed

section \<open>Time stamps and the derived order status\<close>

text \<open>
  C5. After a successful transition the stored job is the one in the response; its
  \<open>actual_start_time\<close> is the current time when the new status is \<open>in_progress\<close>
  and no start time was recorded, and the recorded one otherwise; its
  \<open>actual_end_time\<close> is the current time when the new status is \<open>completed\<close>, and
  the recorded one otherwise.
\<close>

theorem transition_stamps_start_and_end:
  assumes "findByPk job_id (jobs d) jobId = Some j"
    and "put_job_status fails now req_user jobId body d = (d', Inr resp)"
  shows "findByPk job_id (jobs d') jobId = Some (resp_job resp)
       \<and> job_status (resp_job resp) = sb_status body
       \<and> job_actual_start_time (resp_job resp) =
            (if sb_status body = ''in_progress'' \<and> job_actual_start_time j = None
             then Some now else job_actual_start_time j)
       \<and> job_actual_end_time (resp_job resp) =
            (if sb_status body = ''completed'' then Some now else job_actual_end_time j)"
proof -
  have ap: "apply_job_status fails now req_user j (include_order d j) body d = (d', Inr resp)"
    using assms by (rule put_job_status_Inr)
  have r: "\<not> fails Job_update" "resp_job resp = job_after now (sb_status body) j"
    using apply_job_status_Inr [OF ap] by simp_all
  have id: "job_id j = jobId"
    using assms(1) by (rule findByPk_Some_pk)
  have "jobs d' = update_row job_id (job_after now (sb_status body) j) (jobs d)"
    using apply_job_status_jobs [OF ap] r(1) by simp
  then have "findByPk job_id (jobs d') jobId = Some (job_after now (sb_status body) j)"
    using findByPk_update_row [OF assms(1), of "job_after now (sb_status body) j"]
    by (simp add: job_after_def id)
  then show ?thesis
    unfolding r(2) by (simp add: job_after_def)
qed

theorem transition_stamps_start_and_end_witness:
  "findByPk job_id (jobs (ex_db ''arrived'' None ''installation_scheduled'')) ''j1''
     = Some (ex_job ''arrived'' None)
   \<and> put_job_status no_failure 1700000360000 ex_installer ''j1'' (ex_body ''in_progress'')
       (ex_db ''arrived'' None ''installation_scheduled'')
     = ((ex_db ''in_progress'' (Some 1700000360000) ''installation_scheduled'')
          \<lparr>job_status_updates := [ex_audit_row ''u-installer'' ''arrived'' ''in_progress''],
           notifications := [ex_job_notification ''In Progress'']\<rparr>,
        Inr \<lparr>resp_job = ex_job ''in_progress'' (Some 1700000360000),
             resp_old_status = ''arrived'', resp_new_status = ''in_progress''\<rparr>)
   \<and> findByPk job_id
       (jobs ((ex_db ''in_progress'' (Some 1700000360000) ''installation_scheduled'')
          \<lparr>job_status_updates := [ex_audit_row ''u-installer'' ''arrived'' ''in_progress''],
           notifications := [ex_job_notification ''In Progress'']\<rparr>)) ''j1''
     = Some (ex_job ''in_progress'' (Some 1700000360000))
   \<and> job_actual_start_time (ex_job ''in_progress'' (Some 1700000360000)) = Some 1700000360000
   \<and> job_actual_end_time (ex_job ''in_progress'' (Some 1700000360000)) = None"
proof -
  have e: "job_actual_start_time (ex_job ''arrived'' None) = None"
    "job_actual_end_time (ex_job ''arrived'' None) = None"
    "sb_status (ex_body ''in_progress'') = ''in_progress''"
    by (simp_all add: ex_defs)
  show ?thesis
    using transition_stamps_start_and_end [OF findByPk_ex_job ex_start_job]
      findByPk_ex_job [of "''arrived''" None "''installation_scheduled''"] ex_start_job
    by (simp add: e)
qed

text \<open>
  C6. After a successful transition the orders table is changed only when the new job
  status is \<open>completed\<close> and the job type is \<open>measuring\<close>, \<open>delivery\<close> or
  \<open>installation\<close>; the job's order then gets the status \<open>measuring_completed\<close>,
  \<open>delivered\<close> or \<open>installation_completed\<close>, whatever its status was before:
  the statement has no condition on the order's status, and the example overwrites a
  cancelled order.
\<close>

theorem order_status_derived_on_job_completion:
  assumes "findByPk job_id (jobs d) jobId = Some j"
    and "put_job_status fails now req_user jobId body d = (d', Inr resp)"
  shows "\<exists>ord. findByPk order_id (orders d) (job_order_id j) = Some ord
           \<and> map_of orderStatusMap (job_type j) = spec_derived_order_status (job_type j)
           \<and> orders d' =
               (if sb_status body = ''completed'' then
                  (case spec_derived_order_status (job_type j) of
                     None \<Rightarrow> orders d
                   | Some derived \<Rightarrow> update_row order_id (ord\<lparr>order_status := derived\<rparr>) (orders d))
                else orders d)
           \<and> findByPk order_id (orders d') (job_order_id j) =
               Some (if sb_status body = ''completed'' then
                       (case spec_derived_order_status (job_type j) of
                          None \<Rightarrow> ord
                        | Some derived \<Rightarrow> ord\<lparr>order_status := derived\<rparr>)
                     else ord)"
proof -
  have ap: "apply_job_status fails now req_user j (include_order d j) body d = (d', Inr resp)"
    using assms by (rule put_job_status_Inr)
  obtain ord c where l: "include_order d j = Some (ord, Some c)"
    and o: "orders d' =
               (if sb_status body = ''completed'' then
                  (case spec_derived_order_status (job_type j) of
                     None \<Rightarrow> orders d
                   | Some derived \<Rightarrow> update_row order_id (ord\<lparr>order_status := derived\<rparr>) (orders d))
                else orders d)"
    using apply_job_status_orders [OF ap] by blast
  have f: "findByPk order_id (orders d) (job_order_id j) = Some ord"
    using l by (auto simp: include_order_def split: option.splits)
  have id: "order_id ord = job_order_id j"
    using f by (rule findByPk_Some_pk)
  have "findByPk order_id (update_row order_id (ord\<lparr>order_status := s\<rparr>) (orders d)) (job_order_id j)
          = Some (ord\<lparr>order_status := s\<rparr>)" for s
    using f by (rule findByPk_update_row) (simp add: id)
  then have "findByPk order_id (orders d') (job_order_id j) =
               Some (if sb_status body = ''completed'' then
                       (case spec_derived_order_status (job_type j) of
                          None \<Rightarrow> ord
                        | Some derived \<Rightarrow> ord\<lparr>order_status := derived\<rparr>)
                     else ord)"
    unfolding o using f by (simp split: option.splits)
  then show ?thesis
    using f o orderStatusMap_spec by blast
qed

theorem order_status_derived_on_job_completion_witness:
  "findByPk job_id (jobs (ex_db ''in_progress'' (Some 1700000100000) ''cancelled'')) ''j1''
     = Some (ex_job ''in_progress'' (Some 1700000100000))
   \<and> put_job_status no_failure 1700000360000 ex_installer ''j1'' (ex_body ''completed'')
       (ex_db ''in_progress'' (Some 1700000100000) ''cancelled'')
     = (\<lparr>users = [ex_manager, ex_installer, ex_client_user],
         clients = [ex_client],
         orders = [ex_order ''installation_completed''],
         jobs = [(ex_job ''completed'' (Some 1700000100000))
                   \<lparr>job_actual_end_time := Some 1700000360000\<rparr>],
         job_status_updates = [ex_audit_row ''u-installer'' ''in_progress'' ''completed''],
         notifications = [ex_job_notification ''Completed'']\<rparr>,
        Inr \<lparr>resp_job = (ex_job ''completed'' (Some 1700000100000))
                           \<lparr>job_actual_end_time := Some 1700000360000\<rparr>,
             resp_old_status = ''in_progress'', resp_new_status = ''completed''\<rparr>)
   \<and> findByPk order_id (orders (ex_db ''in_progress'' (Some 1700000100000) ''cancelled'')) ''o1''
     = Some (ex_order ''cancelled'')
   \<and> findByPk order_id [ex_order ''installation_completed''] ''o1''
     = Some ((ex_order ''cancelled'')\<lparr>order_status := ''installation_completed''\<rparr>)"
proof -
  have e: "job_order_id (ex_job ''in_progress'' (Some 1700000100000)) = ''o1''"
    "job_type (ex_job ''in_progress'' (Some 1700000100000)) = ''installation''"
    "sb_status (ex_body ''completed'') = ''completed''"
    "findByPk order_id (orders (ex_db ''in_progress'' (Some 1700000100000) ''cancelled'')) ''o1''
       = Some (ex_order ''cancelled'')"
    by (simp_all add: ex_defs findByPk_def)
  have s: "spec_derived_order_status ''installation'' = Some ''installation_completed''"
    by (simp add: spec_derived_order_status_def)
  let ?d' = "\<lparr>users = [ex_manager, ex_installer, ex_client_user],
         clients = [ex_client],
         orders = [ex_order ''installation_completed''],
         jobs = [(ex_job ''completed'' (Some 1700000100000))
                   \<lparr>job_actual_end_time := Some 1700000360000\<rparr>],
         job_status_updates = [ex_audit_row ''u-installer'' ''in_progress'' ''completed''],
         notifications = [ex_job_notification ''Completed'']\<rparr>"
  obtain ord where o: "findByPk order_id
        (orders (ex_db ''in_progress'' (Some 1700000100000) ''cancelled'')) ''o1'' = Some ord"
    and f: "findByPk order_id (orders ?d') ''o1'' = Some (ord\<lparr>order_status := ''installation_completed''\<rparr>)"
    using order_status_derived_on_job_completion [OF findByPk_ex_job ex_complete_job]
    unfolding e s by auto
  have "ord = ex_order ''cancelled''"
    using o unfolding e by simp
  then have "findByPk order_id [ex_order ''installation_completed''] ''o1''
     = Some ((ex_order ''cancelled'')\<lparr>order_status := ''installation_completed''\<rparr>)"
    using f by simp
  then show ?thesis
    using findByPk_ex_job [of "''in_progress''" "Some 1700000100000" "''cancelled''"]
      ex_complete_job e(4)
    by blast
qed

section \<open>The direct order status update\<close>

text \<open>
  C7, as stated, does not hold: the notification is created only when the order's
  client has a user account. For a client without one the update succeeds and no
  notification row is written.
\<close>

theorem order_status_set_without_notification:
  "snd (put_order_status no_failure 1700000360000 ex_manager ''o1'' (ex_order_body ''in_production'')
          (ex_db_client_without_user ''measuring_completed''))
     = Inr \<lparr>oresp_order = ex_order ''in_production'', oresp_old_status = ''measuring_completed'',
            oresp_new_status = ''in_production''\<rparr>
   \<and> include_client (ex_db_client_without_user ''measuring_completed'')
        (ex_order ''measuring_completed'')
     = Some (\<lparr>client_id = ''c1'', client_user_id = None\<rparr>, None)
   \<and> notifications
        (fst (put_order_status no_failure 1700000360000 ex_manager ''o1''
               (ex_order_body ''in_production'')
               (ex_db_client_without_user ''measuring_completed'')))
     = []"
proof -
  let ?d = "ex_db_client_without_user ''measuring_completed''"
  have f: "findByPk order_id (orders ?d) ''o1'' = Some (ex_order ''measuring_completed'')"
    by (simp add: ex_db_client_without_user_def findByPk_def ex_defs)
  have v: "order_status_validation (ex_order_body ''in_production'') = []"
    by (simp add: order_status_validation_def ex_order_body_def)
  have c: "include_client ?d (ex_order ''measuring_completed'')
     = Some (\<lparr>client_id = ''c1'', client_user_id = None\<rparr>, None)"
    by (simp add: include_client_def ex_db_client_without_user_def findByPk_def ex_defs)
  have n: "\<not> no_failure Order_findByPk"
    by (simp add: no_failure_def)
  show ?thesis
    unfolding put_order_status_found [where fails = no_failure, OF ex_manager_management v n f] c
    by (simp add: no_failure_def order_after_def)
      (simp add: ex_db_client_without_user_def ex_defs ex_order_body_def notes_or_def)
qed

text \<open>
  C7, amended. For a caller with a management role, any of the 15 order statuses and an
  existing order whose client is loaded, the update succeeds when no call on the store
  is rejected, whatever the order's current status is; the stored status is the new
  one; \<open>actual_completion_date\<close> is the current time when the new status is
  \<open>completed\<close> and the stored date otherwise; and exactly one status-update
  notification is written for the client's user when the client has a user account,
  none otherwise.
\<close>

theorem order_status_set_without_transition_check:
  assumes "requireManagement req_user"
    and "ob_status body \<in> set Order_status_ENUM"
    and "findByPk order_id (orders d) orderId = Some ord"
    and "\<forall>call. \<not> fails call"
    and "include_client d ord = Some (c, cu)"
  shows "\<exists>ord'. snd (put_order_status fails now req_user orderId body d) =
                   Inr \<lparr>oresp_order = ord', oresp_old_status = order_status ord,
                        oresp_new_status = ob_status body\<rparr>
          \<and> findByPk order_id (orders (fst (put_order_status fails now req_user orderId body d)))
               orderId = Some ord'
          \<and> order_status ord' = ob_status body
          \<and> order_actual_completion_date ord' =
               (if ob_status body = ''completed'' then Some now
                else order_actual_completion_date ord)
          \<and> notifications (fst (put_order_status fails now req_user orderId body d)) =
               notifications d @
               (case cu of
                  None \<Rightarrow> []
                | Some clientUser \<Rightarrow>
                    [\<lparr>ntf_user_id = user_id clientUser,
                      ntf_title = ''Order Status Update'',
                      ntf_message = ''Your order '' @ order_number ord
                         @ '' status has been updated to '' @ Order_getStatusDisplay ord',
                      ntf_type = ''status_update'',
                      ntf_related_job_id = None,
                      ntf_related_order_id = Some orderId\<rparr>])"
proof -
  let ?R = "put_order_status fails now req_user orderId body d"
  let ?ord' = "order_after now body ord"
  have nf: "\<not> fails Order_findByPk" "\<not> fails Order_update" "\<not> fails Notification_create"
    using assms(4) by blast+
  have v: "order_status_validation body = []"
    using assms(2) by (simp add: order_status_validation_ENUM)
  have id: "order_id ord = orderId"
    using assms(3) by (rule findByPk_Some_pk)
  have R: "?R = (d\<lparr>orders := update_row order_id ?ord' (orders d),
                   notifications := notifications d @
                     (case cu of None \<Rightarrow> []
                      | Some clientUser \<Rightarrow> [order_status_notification clientUser ?ord'])\<rparr>,
                 Inr \<lparr>oresp_order = ?ord', oresp_old_status = order_status ord,
                      oresp_new_status = ob_status body\<rparr>)"
    unfolding put_order_status_found [where fails = fails, OF assms(1) v nf(1) assms(3)]
    using nf assms(5) by (cases cu) simp_all
  have stored: "findByPk order_id (update_row order_id ?ord' (orders d)) orderId = Some ?ord'"
    using assms(3) by (rule findByPk_update_row) (simp add: order_after_def id)
  show ?thesis
    unfolding R using stored
    by (intro exI [of _ ?ord'])
      (simp add: order_after_def order_status_notification_def id split: option.splits)
qed

theorem order_status_set_without_transition_check_witness:
  "requireManagement ex_manager
   \<and> ob_status (ex_order_body ''pending'') \<in> set Order_status_ENUM
   \<and> findByPk order_id (orders (ex_db ''completed'' None ''completed'')) ''o1''
       = Some (ex_order ''completed'')
   \<and> (\<forall>call. \<not> no_failure call)
   \<and> include_client (ex_db ''completed'' None ''completed'') (ex_order ''completed'')
       = Some (ex_client, Some ex_client_user)
   \<and> snd (put_order_status no_failure 1700000360000 ex_manager ''o1'' (ex_order_body ''pending'')
            (ex_db ''completed'' None ''completed''))
       = Inr \<lparr>oresp_order = ex_order ''pending'', oresp_old_status = ''completed'',
              oresp_new_status = ''pending''\<rparr>
   \<and> notifications
        (fst (put_order_status no_failure 1700000360000 ex_manager ''o1'' (ex_order_body ''pending'')
               (ex_db ''completed'' None ''completed'')))
       = [ex_order_notification ''Pending'']"
proof -
  let ?d = "ex_db ''completed'' None ''completed''"
  let ?R = "put_order_status no_failure 1700000360000 ex_manager ''o1'' (ex_order_body ''pending'') ?d"
  have h2: "ob_status (ex_order_body ''pending'') \<in> set Order_status_ENUM"
    by (simp add: ex_order_body_def Order_status_ENUM_def)
  have h4: "\<forall>call. \<not> no_failure call"
    by (simp add: no_failure_def)
  obtain ord' where r: "snd ?R = Inr \<lparr>oresp_order = ord',
        oresp_old_status = order_status (ex_order ''completed''),
        oresp_new_status = ob_status (ex_order_body ''pending'')\<rparr>"
    and s: "order_status ord' = ob_status (ex_order_body ''pending'')"
    and n: "notifications (fst ?R) = notifications ?d @
               [\<lparr>ntf_user_id = user_id ex_client_user,
                 ntf_title = ''Order Status Update'',
                 ntf_message = ''Your order '' @ order_number (ex_order ''completed'')
                    @ '' status has been updated to '' @ Order_getStatusDisplay ord',
                 ntf_type = ''status_update'',
                 ntf_related_job_id = None,
                 ntf_related_order_id = Some ''o1''\<rparr>]"
    using order_status_set_without_transition_check [where fails = no_failure
        and now = 1700000360000, OF ex_manager_management h2 findByPk_ex_order h4 include_client_ex]
    unfolding option.case by blast
  have e: "snd ?R = Inr \<lparr>oresp_order = ex_order ''pending'', oresp_old_status = ''completed'',
              oresp_new_status = ''pending''\<rparr>"
    by (simp add: put_order_status_found [where fails = no_failure, OF ex_manager_management
          h2 [unfolded order_status_validation_ENUM [symmetric]] _ findByPk_ex_order]
        no_failure_def include_client_ex order_after_def)
      (simp add: ex_defs ex_order_body_def notes_or_def)
  have "ord' = ex_order ''pending''"
    using r e by simp
  then have "Order_getStatusDisplay ord' = ''Pending''"
    by (simp add: Order_getStatusDisplay_def lookup_or_str_def Order_statusMap_def ex_order_def)
  then have "notifications (fst ?R) = [ex_order_notification ''Pending'']"
    using n by (simp add: ex_defs ex_order_notification_def)
  then show ?thesis
    using ex_manager_management h2 findByPk_ex_order h4 include_client_ex e by blast
qed

text \<open>
  C10. A successful direct status update writes the order row with its \<open>status\<close>,
  \<open>notes\<close> and \<open>actual_completion_date\<close> set and every other column as it was;
  \<open>actual_completion_date\<close> is unchanged when the new status is not \<open>completed\<close>,
  and \<open>notes\<close> are unchanged when the request has none. The other rows of the orders
  table and the users, clients, jobs and audit tables are unchanged.
\<close>

theorem order_status_update_frame:
  assumes "findByPk order_id (orders d) orderId = Some ord"
    and "put_order_status fails now req_user orderId body d = (d', Inr resp)"
  shows "findByPk order_id (orders d') orderId = Some (oresp_order resp)
       \<and> oresp_order resp =
           ord\<lparr>order_status := ob_status body,
               order_notes := order_notes (oresp_order resp),
               order_actual_completion_date := order_actual_completion_date (oresp_order resp)\<rparr>
       \<and> order_id (oresp_order resp) = order_id ord
       \<and> order_number (oresp_order resp) = order_number ord
       \<and> order_client_id (oresp_order resp) = order_client_id ord
       \<and> order_assigned_manager_id (oresp_order resp) = order_assigned_manager_id ord
       \<and> order_total_amount (oresp_order resp) = order_total_amount ord
       \<and> order_currency (oresp_order resp) = order_currency ord
       \<and> order_date (oresp_order resp) = order_date ord
       \<and> order_estimated_completion_date (oresp_order resp) = order_estimated_completion_date ord
       \<and> order_crm_order_id (oresp_order resp) = order_crm_order_id ord
       \<and> order_created_at (oresp_order resp) = order_created_at ord
       \<and> (ob_status body \<noteq> ''completed'' \<longrightarrow>
            order_actual_completion_date (oresp_order resp) = order_actual_completion_date ord)
       \<and> (ob_notes body = None \<longrightarrow> order_notes (oresp_order resp) = order_notes ord)
       \<and> orders d' = update_row order_id (oresp_order resp) (orders d)
       \<and> users d' = users d \<and> clients d' = clients d \<and> jobs d' = jobs d
       \<and> job_status_updates d' = job_status_updates d"
proof -
  let ?ord' = "order_after now body ord"
  have r: "oresp_order resp = ?ord'"
    and o: "orders d' = update_row order_id ?ord' (orders d)"
    and t: "users d' = users d" "clients d' = clients d" "jobs d' = jobs d"
      "job_status_updates d' = job_status_updates d"
    using put_order_status_Inr [OF assms] by simp_all
  have id: "order_id ord = orderId"
    using assms(1) by (rule findByPk_Some_pk)
  have stored: "findByPk order_id (orders d') orderId = Some ?ord'"
    unfolding o using assms(1) by (rule findByPk_update_row) (simp add: order_after_def id)
  have fields: "?ord' = ord\<lparr>order_status := ob_status body,
               order_notes := order_notes ?ord',
               order_actual_completion_date := order_actual_completion_date ?ord'\<rparr>"
    "order_id ?ord' = order_id ord"
    "order_number ?ord' = order_number ord"
    "order_client_id ?ord' = order_client_id ord"
    "order_assigned_manager_id ?ord' = order_assigned_manager_id ord"
    "order_total_amount ?ord' = order_total_amount ord"
    "order_currency ?ord' = order_currency ord"
    "order_date ?ord' = order_date ord"
    "order_estimated_completion_date ?ord' = order_estimated_completion_date ord"
    "order_crm_order_id ?ord' = order_crm_order_id ord"
    "order_created_at ?ord' = order_created_at ord"
    by (simp_all add: order_after_def)
  have cond: "ob_status body \<noteq> ''completed'' \<longrightarrow>
            order_actual_completion_date ?ord' = order_actual_completion_date ord"
    "ob_notes body = None \<longrightarrow> order_notes ?ord' = order_notes ord"
    by (simp_all add: order_after_def notes_or_def)
  show ?thesis
    unfolding r using stored fields cond o t by (intro conjI)
qed

theorem order_status_update_frame_witness:
  "findByPk order_id (orders (ex_db ''completed'' (Some 1700000100000) ''measuring_completed'')) ''o1''
     = Some (ex_order ''measuring_completed'')
   \<and> put_order_status no_failure 1700000360000 ex_manager ''o1'' (ex_order_body ''in_production'')
       (ex_db ''completed'' (Some 1700000100000) ''measuring_completed'')
     = ((ex_db ''completed'' (Some 1700000100000) ''in_production'')
          \<lparr>notifications := [ex_order_notification ''In Production'']\<rparr>,
        Inr \<lparr>oresp_order = ex_order ''in_production'', oresp_old_status = ''measuring_completed'',
             oresp_new_status = ''in_production''\<rparr>)
   \<and> ob_status (ex_order_body ''in_production'') \<noteq> ''completed''
   \<and> ob_notes (ex_order_body ''in_production'') = None
   \<and> order_actual_completion_date (ex_order ''in_production'')
       = order_actual_completion_date (ex_order ''measuring_completed'')
   \<and> order_notes (ex_order ''in_production'') = order_notes (ex_order ''measuring_completed'')
   \<and> order_number (ex_order ''in_production'') = order_number (ex_order ''measuring_completed'')
   \<and> order_total_amount (ex_order ''in_production'')
       = order_total_amount (ex_order ''measuring_completed'')"
proof -
  have b: "ob_status (ex_order_body ''in_production'') \<noteq> ''completed''"
    "ob_notes (ex_order_body ''in_production'') = None"
    by (simp_all add: ex_order_body_def)
  have r: "oresp_order \<lparr>oresp_order = ex_order ''in_production'',
             oresp_old_status = ''measuring_completed'',
             oresp_new_status = ''in_production''\<rparr> = ex_order ''in_production''"
    by simp
  show ?thesis
    using order_status_update_frame [OF findByPk_ex_order ex_set_order_status, unfolded r]
      findByPk_ex_order [of "''completed''" "Some 1700000100000" "''measuring_completed''"]
      ex_set_order_status b
    by blast
qed

section \<open>Progress percentage and order numbers\<close>

text \<open>
  C8. \<open>getProgressPercentage\<close> depends on the order status only and lies between 0
  and 100 for every status; the table has one entry for each of the 15 statuses; the
  value is 0 for \<open>cancelled\<close> and 100 for \<open>completed\<close>; and along the happy path
  from \<open>pending\<close> to \<open>completed\<close> the values are non-decreasing.
\<close>

theorem progress_percentage_table:
  "(\<forall>s. 0 \<le> getProgressPercentage (ord\<lparr>order_status := s\<rparr>)
        \<and> getProgressPercentage (ord\<lparr>order_status := s\<rparr>) \<le> 100)
   \<and> map fst statusProgress = Order_status_ENUM
   \<and> getProgressPercentage (ord\<lparr>order_status := ''cancelled''\<rparr>) = 0
   \<and> getProgressPercentage (ord\<lparr>order_status := ''completed''\<rparr>) = 100
   \<and> sorted (map (\<lambda>s. getProgressPercentage (ord\<lparr>order_status := s\<rparr>)) happy_path)
   \<and> map (\<lambda>s. getProgressPercentage (ord\<lparr>order_status := s\<rparr>)) happy_path
       = [5, 10, 15, 25, 30, 50, 70, 75, 80, 85, 90, 95, 98, 100]
   \<and> getProgressPercentage ord = lookup_or_int statusProgress (order_status ord) 0"
proof -
  have range: "0 \<le> getProgressPercentage (ord\<lparr>order_status := s\<rparr>)
        \<and> getProgressPercentage (ord\<lparr>order_status := s\<rparr>) \<le> 100" for s
    using statusProgress_range [of s]
    by (auto simp: getProgressPercentage_def lookup_or_int_def split: option.splits)
  have keys: "map fst statusProgress = Order_status_ENUM"
    by (simp add: statusProgress_def Order_status_ENUM_def)
  have path: "map (\<lambda>s. getProgressPercentage (ord\<lparr>order_status := s\<rparr>)) happy_path
       = [5, 10, 15, 25, 30, 50, 70, 75, 80, 85, 90, 95, 98, 100]"
    by (simp add: happy_path_def getProgressPercentage_def lookup_or_int_def statusProgress_def)
  have ends: "getProgressPercentage (ord\<lparr>order_status := ''cancelled''\<rparr>) = 0"
    "getProgressPercentage (ord\<lparr>order_status := ''completed''\<rparr>) = 100"
    by (simp_all add: getProgressPercentage_def lookup_or_int_def statusProgress_def)
  have "sorted (map (\<lambda>s. getProgressPercentage (ord\<lparr>order_status := s\<rparr>)) happy_path)"
    unfolding path by simp
  then show ?thesis
    using range keys path ends by (simp add: getProgressPercentage_def)
qed

text \<open>
  C9 says that an order created without an explicit order number gets the number
  \<open>WM-\<close>, the current year, \<open>-\<close> and the count of the year's orders plus one,
  padded to six digits. The hook computes that number, but it is never reached: the
  handler of \<open>POST /orders\<close> passes no \<open>order_number\<close>, the validation of
  \<open>allowNull: false\<close> rejects the new instance before \<open>beforeCreate\<close> runs, no row
  is inserted, and the handler answers 500. For every request body: the call is
  rejected with the not-null violation of \<open>order_number\<close>, the table is unchanged,
  and the hook, had it run, would have changed the values.
\<close>

theorem order_create_without_number_rejected:
  "Order_create getFullYear extract_year now new_id (post_orders_create_values body) rows
     = (rows, Inl (SequelizeValidationError (Order_validate (post_orders_create_values body))))
   \<and> (\<exists>more. Order_validate (post_orders_create_values body)
               = ''notNull Violation: Order.order_number cannot be null'' # more)
   \<and> beforeCreate getFullYear extract_year now rows (post_orders_create_values body)
       \<noteq> post_orders_create_values body
   \<and> post_orders_create getFullYear extract_year now new_id body rows = (rows, Inl ServerError)"
proof -
  let ?v = "post_orders_create_values body"
  have m: "val_order_number ?v = None"
    by (simp add: post_orders_create_values_def)
  obtain more where e: "Order_validate ?v
      = ''notNull Violation: Order.order_number cannot be null'' # more"
    using Order_validate_missing_number [OF m] by blast
  then have ne: "Order_validate ?v \<noteq> []"
    by simp
  have r: "Order_create getFullYear extract_year now new_id ?v rows
     = (rows, Inl (SequelizeValidationError (Order_validate ?v)))"
    using ne by (rule Order_create_rejected)
  have h: "beforeCreate getFullYear extract_year now rows ?v \<noteq> ?v"
  proof
    assume "beforeCreate getFullYear extract_year now rows ?v = ?v"
    then have "val_order_number (beforeCreate getFullYear extract_year now rows ?v) = None"
      using m by simp
    then show False
      using beforeCreate_number_format [where v = ?v and getFullYear = getFullYear
          and extract_year = extract_year and now = now and rows = rows] m
      by simp
  qed
  have p: "post_orders_create getFullYear extract_year now new_id body rows = (rows, Inl ServerError)"
    by (simp add: post_orders_create_def r)
  show ?thesis
    using r e h p by blast
qed

end
